theory Spec2Isabelle
  imports Main "HOL-Library.Word" "HOL-Library.Sublist"
begin

section \<open>JavaScript strings\<close>

text \<open>
  A JavaScript string is a sequence of 16-bit code units. String literals of the source
  are ASCII; \<open>lit\<close> embeds an ASCII literal.
\<close>

type_synonym code_unit = "16 word"
type_synonym jsstring = "code_unit list"

definition lit :: "string \<Rightarrow> jsstring" where
  "lit s = map of_char s"

definition SPACE :: code_unit where
  "SPACE = 0x0020"

definition DQUOTE :: code_unit where
  "DQUOTE = 0x0022"

definition LF :: code_unit where
  "LF = 0x000A"

text \<open>
  ECMAScript \<open>WhiteSpace\<close> and \<open>LineTerminator\<close> code units: the set that
  \<open>String.prototype.trim\<close> strips and that the regular expression class \<open>\s\<close> matches.
\<close>

definition isWhiteSpace :: "code_unit \<Rightarrow> bool" where
  "isWhiteSpace c \<longleftrightarrow>
     c = 0x0009 \<or> c = 0x000A \<or> c = 0x000B \<or> c = 0x000C \<or> c = 0x000D \<or> c = 0x0020 \<or>
     c = 0x00A0 \<or> c = 0x1680 \<or> (0x2000 \<le> c \<and> c \<le> 0x200A) \<or> c = 0x2028 \<or>
     c = 0x2029 \<or> c = 0x202F \<or> c = 0x205F \<or> c = 0x3000 \<or> c = 0xFEFF"

text \<open>\<open>s.trim()\<close>\<close>

definition trim :: "jsstring \<Rightarrow> jsstring" where
  "trim s = rev (dropWhile isWhiteSpace (rev (dropWhile isWhiteSpace s)))"

text \<open>\<open>xs.join(sep)\<close> on an array of strings\<close>

fun join :: "jsstring \<Rightarrow> jsstring list \<Rightarrow> jsstring" where
  "join sep [] = []"
| "join sep [x] = x"
| "join sep (x # y # ys) = x @ sep @ join sep (y # ys)"

text \<open>\<open>s.replace(c, d)\<close> with single-character string arguments: only the first
  occurrence is replaced.\<close>

fun replace_first :: "code_unit \<Rightarrow> code_unit \<Rightarrow> jsstring \<Rightarrow> jsstring" where
  "replace_first c d [] = []"
| "replace_first c d (x # xs) = (if x = c then d # xs else x # replace_first c d xs)"

text \<open>\<open>s.replace(/\s+/g, ' ')\<close>: every maximal run of white space becomes one space.\<close>

function collapse_ws :: "jsstring \<Rightarrow> jsstring" where
  "collapse_ws [] = []"
| "collapse_ws (c # cs) =
     (if isWhiteSpace c then SPACE # collapse_ws (dropWhile isWhiteSpace cs)
      else c # collapse_ws cs)"
  by pat_completeness auto
termination
  by (relation "measure length") (auto simp: length_dropWhile_le less_Suc_eq_le)

text \<open>\<open>String(n)\<close> for an integer-valued number\<close>

fun decimal_nat :: "nat \<Rightarrow> jsstring" where
  "decimal_nat n =
     (if n < 10 then [of_nat (48 + n)] else decimal_nat (n div 10) @ [of_nat (48 + n mod 10)])"

declare decimal_nat.simps [simp del]

definition decimal :: "int \<Rightarrow> jsstring" where
  "decimal i = (if i < 0 then lit ''-'' @ decimal_nat (nat (- i)) else decimal_nat (nat i))"

section \<open>types.ts\<close>

datatype Language = english | kinyarwanda
datatype AspectRatio = AR_1_1 | AR_16_9 | AR_9_16 | AR_4_3 | AR_3_4
datatype VideoFPS = FPS_24 | FPS_30 | FPS_60
datatype VideoStyle = VS_none | cinematic | animated | hyperrealistic | vintage
datatype AudioMood = AM_none | epic | ambient | lofi | cinematic_tension
datatype VideoDuration = short | medium | long | one_minute | three_minute
datatype CameraMovement = CM_none | pan | zoom_in | zoom_out | drone_shot | static
datatype VideoQuality = standard | high
datatype VideoFraming = VF_none | close_up | medium_shot | long_shot
datatype AIPersona = P_none | photographer | illustrator | cinematographer | vfx_artist
  | concept_artist | wildlife_photographer | sci_fi_artist | food_photographer
  | architectural_designer
datatype Intensity = subtle | balanced | strong
datatype SubscriptionTier = free | silver | golden | diamond
datatype SoundFXStyle = FX_none | realistic | cartoon | FX_cinematic
datatype ItemType = IMAGE | VIDEO
datatype ToastType = success | error | info

text \<open>The run-time string of each union member.\<close>

fun AspectRatio_str :: "AspectRatio \<Rightarrow> jsstring" where
  "AspectRatio_str AR_1_1 = lit ''1:1''"
| "AspectRatio_str AR_16_9 = lit ''16:9''"
| "AspectRatio_str AR_9_16 = lit ''9:16''"
| "AspectRatio_str AR_4_3 = lit ''4:3''"
| "AspectRatio_str AR_3_4 = lit ''3:4''"

fun VideoFPS_num :: "VideoFPS \<Rightarrow> int" where
  "VideoFPS_num FPS_24 = 24"
| "VideoFPS_num FPS_30 = 30"
| "VideoFPS_num FPS_60 = 60"

fun VideoStyle_str :: "VideoStyle \<Rightarrow> jsstring" where
  "VideoStyle_str VS_none = lit ''none''"
| "VideoStyle_str cinematic = lit ''cinematic''"
| "VideoStyle_str animated = lit ''animated''"
| "VideoStyle_str hyperrealistic = lit ''hyperrealistic''"
| "VideoStyle_str vintage = lit ''vintage''"

fun AudioMood_str :: "AudioMood \<Rightarrow> jsstring" where
  "AudioMood_str AM_none = lit ''none''"
| "AudioMood_str epic = lit ''epic''"
| "AudioMood_str ambient = lit ''ambient''"
| "AudioMood_str lofi = lit ''lofi''"
| "AudioMood_str cinematic_tension = lit ''cinematic-tension''"

fun CameraMovement_str :: "CameraMovement \<Rightarrow> jsstring" where
  "CameraMovement_str CM_none = lit ''none''"
| "CameraMovement_str pan = lit ''pan''"
| "CameraMovement_str zoom_in = lit ''zoom-in''"
| "CameraMovement_str zoom_out = lit ''zoom-out''"
| "CameraMovement_str drone_shot = lit ''drone-shot''"
| "CameraMovement_str static = lit ''static''"

fun VideoFraming_str :: "VideoFraming \<Rightarrow> jsstring" where
  "VideoFraming_str VF_none = lit ''none''"
| "VideoFraming_str close_up = lit ''close-up''"
| "VideoFraming_str medium_shot = lit ''medium-shot''"
| "VideoFraming_str long_shot = lit ''long-shot''"

fun SubscriptionTier_str :: "SubscriptionTier \<Rightarrow> jsstring" where
  "SubscriptionTier_str free = lit ''free''"
| "SubscriptionTier_str silver = lit ''silver''"
| "SubscriptionTier_str golden = lit ''golden''"
| "SubscriptionTier_str diamond = lit ''diamond''"

text \<open>Record fields carry the prefix of their interface (\<open>gs_\<close>, \<open>li_\<close>, \<open>t_\<close>), since a
  field name is a constant and the source reuses the names for local variables.\<close>

record GenerationSettings =
  gs_prompts :: "jsstring list"
  gs_negativePrompt :: "jsstring option"
  gs_style :: "jsstring option"
  gs_language :: "Language option"
  gs_persona :: "AIPersona option"
  gs_aspectRatio :: "AspectRatio option"
  gs_seed :: "int option"
  gs_duration :: "VideoDuration option"
  gs_cameraMovement :: "CameraMovement option"
  gs_quality :: "VideoQuality option"
  gs_framing :: "VideoFraming option"
  gs_loop :: "bool option"
  gs_fps :: "VideoFPS option"
  gs_styleIntensity :: "Intensity option"
  gs_motionIntensity :: "Intensity option"
  gs_fxStyle :: "SoundFXStyle option"
  gs_audioMood :: "AudioMood option"
  gs_batchSize :: "nat option"
  gs_negativeIntensity :: "Intensity option"

record LibraryItem =
  li_id :: jsstring
  li_type :: ItemType
  li_src :: jsstring
  li_settings :: GenerationSettings
  li_createdAt :: jsstring
  li_variations :: "jsstring list option"
  li_audioSrc :: "jsstring option"

record Toast =
  t_id :: jsstring
  t_message :: jsstring
  t_type :: ToastType

section \<open>services/geminiService.ts: prompt construction\<close>

fun personaInstructions :: "AIPersona \<Rightarrow> jsstring" where
  "personaInstructions P_none = lit ''As a versatile master artist,''"
| "personaInstructions photographer =
     lit ''As a world-renowned photographer known for capturing stunning detail and emotion,''"
| "personaInstructions illustrator =
     lit ''As a master illustrator with a distinct and creative style,''"
| "personaInstructions cinematographer =
     lit ''As a world-class cinematographer and VFX artist,''"
| "personaInstructions vfx_artist =
     lit ''As a senior VFX artist specializing in photorealistic effects and compositing,''"
| "personaInstructions concept_artist =
     lit ''As a visionary concept artist for AAA video games and blockbuster films,''"
| "personaInstructions wildlife_photographer =
     lit ''As a National Geographic wildlife photographer on assignment,''"
| "personaInstructions sci_fi_artist =
     lit ''As a legendary sci-fi concept artist envisioning futuristic worlds,''"
| "personaInstructions food_photographer =
     lit ''As a world-class food photographer creating delicious, mouth-watering imagery,''"
| "personaInstructions architectural_designer =
     lit ''As a leading architectural designer known for innovative and beautiful structures,''"

fun intensityMap :: "Intensity \<Rightarrow> jsstring" where
  "intensityMap subtle = lit ''with a subtle hint of the specified style.''"
| "intensityMap balanced =
     lit ''with a balanced and clear representation of the specified style.''"
| "intensityMap strong =
     lit ''with an extremely strong, dominant, and stylized representation of the specified style.''"

text \<open>The three optional instructions and the main sentence of \<open>constructImagePrompt\<close>,
  in the order the source computes them.\<close>

definition image_languageInstruction :: "Language \<Rightarrow> jsstring" where
  "image_languageInstruction language =
     (if language = kinyarwanda
      then lit ''The user is providing the prompt in Kinyarwanda; interpret it accordingly.''
      else [])"

definition image_styleInstruction :: "jsstring \<Rightarrow> Intensity \<Rightarrow> jsstring" where
  "image_styleInstruction style styleIntensity =
     (if style \<noteq> lit ''none''
      then lit ''Style: '' @ replace_first 0x002D SPACE style @ lit ''. Style Intensity: ''
           @ intensityMap styleIntensity
      else [])"

definition image_negativeInstruction :: "jsstring \<Rightarrow> jsstring" where
  "image_negativeInstruction negativePrompt =
     (if negativePrompt \<noteq> []
      then lit ''Avoid the following: '' @ negativePrompt @ lit ''.''
      else [])"

text \<open>\<open>prompts[0]\<close> inside a template literal: \<open>undefined\<close> prints as the word
  when the array is empty.\<close>

definition image_mainPrompt :: "jsstring list \<Rightarrow> jsstring" where
  "image_mainPrompt prompts =
     (if length prompts > 1
      then lit ''expertly blend the following distinct concepts into a single, cohesive, and beautiful image: ''
           @ join (lit '' and '') (map (\<lambda>p. [DQUOTE] @ p @ [DQUOTE]) prompts) @ lit ''.''
      else lit ''create the following image: ''
           @ (case prompts of [] \<Rightarrow> lit ''undefined'' | p # _ \<Rightarrow> p) @ lit ''.'')"

definition constructImagePrompt ::
  "jsstring list \<Rightarrow> jsstring \<Rightarrow> jsstring \<Rightarrow> Language \<Rightarrow> AIPersona \<Rightarrow> Intensity \<Rightarrow> jsstring" where
  "constructImagePrompt prompts style negativePrompt language persona styleIntensity =
     trim (personaInstructions persona @ [SPACE] @ image_mainPrompt prompts @ [SPACE]
           @ image_languageInstruction language @ [SPACE]
           @ image_styleInstruction style styleIntensity @ [SPACE]
           @ image_negativeInstruction negativePrompt)"

text \<open>The instructions of \<open>constructVideoPrompt\<close>.\<close>

definition video_languageInstruction :: "Language \<Rightarrow> jsstring" where
  "video_languageInstruction language =
     (if language = kinyarwanda
      then lit ''The user is providing the prompt in Kinyarwanda; interpret it as a creative instruction for the scene.''
      else [])"

definition video_styleInstruction :: "VideoStyle \<Rightarrow> jsstring" where
  "video_styleInstruction style =
     (if style \<noteq> VS_none then lit ''Visual Style: '' @ VideoStyle_str style @ lit ''.'' else [])"

definition video_negativeInstruction :: "jsstring \<Rightarrow> jsstring" where
  "video_negativeInstruction negativePrompt =
     (if negativePrompt \<noteq> []
      then lit ''Crucially, avoid the following elements: '' @ negativePrompt @ lit ''.''
      else [])"

fun durationMap :: "VideoDuration \<Rightarrow> jsstring" where
  "durationMap short = lit ''a short clip, approximately 5-8 seconds long.''"
| "durationMap medium = lit ''a medium-length clip, approximately 15 seconds long.''"
| "durationMap long = lit ''a long clip, aiming for 30 seconds.''"
| "durationMap one_minute = lit ''a one-minute long cinematic scene.''"
| "durationMap three_minute =
     lit ''a detailed, three-minute long epic scene. This is a goal, the final length may vary.''"

definition durationInstruction :: "VideoDuration \<Rightarrow> jsstring" where
  "durationInstruction duration = lit ''Duration Goal: '' @ durationMap duration @ lit ''.''"

fun motionIntensityMap :: "Intensity \<Rightarrow> jsstring" where
  "motionIntensityMap subtle = lit ''subtle and slow''"
| "motionIntensityMap balanced = lit ''clear and moderately paced''"
| "motionIntensityMap strong = lit ''dynamic and fast-paced''"

definition cameraInstruction :: "CameraMovement \<Rightarrow> Intensity \<Rightarrow> jsstring" where
  "cameraInstruction cameraMovement motionIntensity =
     (if cameraMovement \<noteq> CM_none
      then lit ''Camera Movement: A '' @ motionIntensityMap motionIntensity @ [SPACE]
           @ replace_first 0x002D SPACE (CameraMovement_str cameraMovement) @ lit ''.''
      else [])"

definition framingInstruction :: "VideoFraming \<Rightarrow> jsstring" where
  "framingInstruction framing =
     (if framing \<noteq> VF_none
      then lit ''Shot Framing: Use a '' @ replace_first 0x002D SPACE (VideoFraming_str framing)
           @ lit ''.''
      else [])"

definition qualityInstruction :: "VideoQuality \<Rightarrow> jsstring" where
  "qualityInstruction quality =
     (if quality = high
      then lit ''Output Quality: Aim for 8K resolution, ultra-high fidelity, with photorealistic rendering and professional color grading.''
      else [])"

definition loopInstruction :: "bool \<Rightarrow> jsstring" where
  "loopInstruction loop = (if loop then lit ''The video must be a perfect, seamless loop.'' else [])"

definition aspectInstruction :: "AspectRatio \<Rightarrow> jsstring" where
  "aspectInstruction aspectRatio =
     lit ''Aspect Ratio: The final video must be in '' @ AspectRatio_str aspectRatio
     @ lit '' format.''"

definition fpsInstruction :: "VideoFPS \<Rightarrow> jsstring" where
  "fpsInstruction fps =
     lit ''Frame Rate: The video must be rendered at '' @ decimal (VideoFPS_num fps)
     @ lit '' frames per second.''"

definition audioInstruction :: "AudioMood \<Rightarrow> jsstring" where
  "audioInstruction audioMood =
     (if audioMood \<noteq> AM_none
      then lit ''The overall mood of the scene should be appropriate for a soundtrack that is ''
           @ replace_first 0x002D SPACE (AudioMood_str audioMood) @ lit ''.''
      else [])"

text \<open>The pieces of the template literal \<open>finalPrompt\<close>, in order. Each line break of
  the source is a line feed followed by the four spaces of indentation; the first and
  the third line carry a trailing space.\<close>

definition video_head :: "AIPersona \<Rightarrow> jsstring \<Rightarrow> jsstring" where
  "video_head persona prompt =
     personaInstructions persona @ lit '' create a video based on this scene: '' @ [DQUOTE]
     @ prompt @ [DQUOTE] @ lit ''.''"

definition NL :: jsstring where
  "NL = [LF, SPACE, SPACE, SPACE, SPACE]"

definition video_template ::
  "jsstring \<Rightarrow> VideoStyle \<Rightarrow> jsstring \<Rightarrow> VideoDuration \<Rightarrow> CameraMovement \<Rightarrow> VideoQuality \<Rightarrow>
   Language \<Rightarrow> VideoFraming \<Rightarrow> AIPersona \<Rightarrow> bool \<Rightarrow> AspectRatio \<Rightarrow> VideoFPS \<Rightarrow> Intensity \<Rightarrow>
   AudioMood \<Rightarrow> jsstring list" where
  "video_template prompt style negativePrompt duration cameraMovement quality language framing
     persona loop aspectRatio fps motionIntensity audioMood =
     [video_head persona prompt, [SPACE], NL,
      video_languageInstruction language, NL,
      video_styleInstruction style, [SPACE], NL,
      cameraInstruction cameraMovement motionIntensity, NL,
      framingInstruction framing, NL,
      durationInstruction duration, NL,
      qualityInstruction quality, NL,
      aspectInstruction aspectRatio, NL,
      fpsInstruction fps, NL,
      audioInstruction audioMood, NL,
      video_negativeInstruction negativePrompt, NL,
      loopInstruction loop]"

definition constructVideoPrompt ::
  "jsstring \<Rightarrow> VideoStyle \<Rightarrow> jsstring \<Rightarrow> VideoDuration \<Rightarrow> CameraMovement \<Rightarrow> VideoQuality \<Rightarrow>
   Language \<Rightarrow> VideoFraming \<Rightarrow> AIPersona \<Rightarrow> bool \<Rightarrow> AspectRatio \<Rightarrow> VideoFPS \<Rightarrow> Intensity \<Rightarrow>
   AudioMood \<Rightarrow> jsstring" where
  "constructVideoPrompt prompt style negativePrompt duration cameraMovement quality language
     framing persona loop aspectRatio fps motionIntensity audioMood =
     trim (collapse_ws (concat (video_template prompt style negativePrompt duration
       cameraMovement quality language framing persona loop aspectRatio fps motionIntensity
       audioMood)))"

section \<open>Exceptions, localStorage and JSON\<close>

text \<open>What a \<open>throw\<close> or a rejected promise carries: an \<open>Error\<close> instance with its
  message, or any other value (\<open>err instanceof Error\<close> is false).\<close>

datatype Thrown = Error jsstring | NonError

type_synonym Storage = "jsstring \<rightharpoonup> jsstring"

text \<open>\<open>localStorage.setItem\<close>: the browser may refuse the write (quota, privacy mode);
  the first argument is the exception it throws then, if any.\<close>

definition setItem :: "Thrown option \<Rightarrow> jsstring \<Rightarrow> jsstring \<Rightarrow> Storage \<Rightarrow> Thrown + Storage" where
  "setItem fault key v storage =
     (case fault of Some e \<Rightarrow> Inl e | None \<Rightarrow> Inr (storage(key \<mapsto> v)))"

text \<open>\<open>JSON.stringify\<close> of a string (\<open>QuoteJSONString\<close>): the two-character escapes,
  \<open>\uXXXX\<close> in lower-case hexadecimal for the other control characters and for unpaired
  surrogates, every other code unit as it is.\<close>

definition hex_digit :: "nat \<Rightarrow> code_unit" where
  "hex_digit n = (if n < 10 then of_nat (48 + n) else of_nat (87 + n))"

definition unicode_escape :: "code_unit \<Rightarrow> jsstring" where
  "unicode_escape c =
     [0x005C, 0x0075, hex_digit (unat c div 4096), hex_digit (unat c div 256 mod 16),
      hex_digit (unat c div 16 mod 16), hex_digit (unat c mod 16)]"

definition isHighSurrogate :: "code_unit \<Rightarrow> bool" where
  "isHighSurrogate c \<longleftrightarrow> 0xD800 \<le> c \<and> c \<le> 0xDBFF"

definition isLowSurrogate :: "code_unit \<Rightarrow> bool" where
  "isLowSurrogate c \<longleftrightarrow> 0xDC00 \<le> c \<and> c \<le> 0xDFFF"

definition quote_unit :: "code_unit \<Rightarrow> jsstring" where
  "quote_unit c =
     (if c = 0x0008 then [0x005C, 0x0062]
      else if c = 0x0009 then [0x005C, 0x0074]
      else if c = 0x000A then [0x005C, 0x006E]
      else if c = 0x000C then [0x005C, 0x0066]
      else if c = 0x000D then [0x005C, 0x0072]
      else if c = 0x0022 then [0x005C, 0x0022]
      else if c = 0x005C then [0x005C, 0x005C]
      else if c < 0x0020 \<or> isHighSurrogate c \<or> isLowSurrogate c then unicode_escape c
      else [c])"

fun quote_body :: "jsstring \<Rightarrow> jsstring" where
  "quote_body [] = []"
| "quote_body [c] = quote_unit c"
| "quote_body (c # d # ds) =
     (if isHighSurrogate c \<and> isLowSurrogate d then c # d # quote_body ds
      else quote_unit c @ quote_body (d # ds))"

definition JSON_stringify_string :: "jsstring \<Rightarrow> jsstring" where
  "JSON_stringify_string s = [DQUOTE] @ quote_body s @ [DQUOTE]"

text \<open>\<open>JSON.stringify\<close> of an array of strings\<close>

definition JSON_stringify_strings :: "jsstring list \<Rightarrow> jsstring" where
  "JSON_stringify_strings xs =
     lit ''['' @ join (lit '','') (map JSON_stringify_string xs) @ lit '']''"

text \<open>\<open>JSON.parse\<close>. A JSON text whose first character after white space is a double
  quote is a string literal followed by white space, or a syntax error; this part of
  the grammar is modelled in full. Any other text is not a string: whether it is valid
  JSON is the parameter \<open>valid_other\<close>, and its value is kept as the text itself. A syntax
  error is \<open>None\<close>.\<close>

datatype JSONValue = JString jsstring | JOther jsstring

definition isJSONWhiteSpace :: "code_unit \<Rightarrow> bool" where
  "isJSONWhiteSpace c \<longleftrightarrow> c = 0x0020 \<or> c = 0x0009 \<or> c = 0x000A \<or> c = 0x000D"

definition hex_value :: "code_unit \<Rightarrow> nat option" where
  "hex_value c =
     (if 0x0030 \<le> c \<and> c \<le> 0x0039 then Some (unat c - 48)
      else if 0x0061 \<le> c \<and> c \<le> 0x0066 then Some (unat c - 87)
      else if 0x0041 \<le> c \<and> c \<le> 0x0046 then Some (unat c - 55)
      else None)"

definition hex4 :: "code_unit \<Rightarrow> code_unit \<Rightarrow> code_unit \<Rightarrow> code_unit \<Rightarrow> code_unit option" where
  "hex4 a b c d =
     (case (hex_value a, hex_value b, hex_value c, hex_value d) of
        (Some w, Some x, Some y, Some z) \<Rightarrow> Some (of_nat (4096 * w + 256 * x + 16 * y + z))
      | _ \<Rightarrow> None)"

definition simple_escape :: "code_unit \<Rightarrow> code_unit option" where
  "simple_escape e =
     (if e = 0x0022 then Some 0x0022
      else if e = 0x005C then Some 0x005C
      else if e = 0x002F then Some 0x002F
      else if e = 0x0062 then Some 0x0008
      else if e = 0x0066 then Some 0x000C
      else if e = 0x006E then Some 0x000A
      else if e = 0x0072 then Some 0x000D
      else if e = 0x0074 then Some 0x0009
      else None)"

definition cons_result :: "code_unit \<Rightarrow> (jsstring \<times> jsstring) option \<Rightarrow> (jsstring \<times> jsstring) option" where
  "cons_result c r = (case r of None \<Rightarrow> None | Some (str, rest) \<Rightarrow> Some (c # str, rest))"

text \<open>The characters after the opening quote: the decoded string and what follows the
  closing quote.\<close>

fun parse_string_body :: "jsstring \<Rightarrow> (jsstring \<times> jsstring) option" where
  "parse_string_body [] = None"
| "parse_string_body (c # cs) =
     (if c = 0x0022 then Some ([], cs)
      else if c = 0x005C then
        (case cs of
           [] \<Rightarrow> None
         | e # es \<Rightarrow>
             if e = 0x0075 then
               (case es of
                  h1 # h2 # h3 # h4 # rest \<Rightarrow>
                    (case hex4 h1 h2 h3 h4 of
                       None \<Rightarrow> None
                     | Some u \<Rightarrow> cons_result u (parse_string_body rest))
                | _ \<Rightarrow> None)
             else
               (case simple_escape e of
                  None \<Rightarrow> None
                | Some x \<Rightarrow> cons_result x (parse_string_body es)))
      else if c < 0x0020 then None
      else cons_result c (parse_string_body cs))"

definition JSON_parse :: "(jsstring \<Rightarrow> bool) \<Rightarrow> jsstring \<Rightarrow> JSONValue option" where
  "JSON_parse valid_other text =
     (case dropWhile isJSONWhiteSpace text of
        [] \<Rightarrow> None
      | c # cs \<Rightarrow>
          if c = DQUOTE then
            (case parse_string_body cs of
               None \<Rightarrow> None
             | Some (str, rest) \<Rightarrow> if list_all isJSONWhiteSpace rest then Some (JString str) else None)
          else if valid_other text then Some (JOther text)
          else None)"

section \<open>services/geminiService.ts: video generation\<close>

text \<open>The image argument of the video request. \<open>imageBytes\<close> is typed \<open>string\<close>, but
  \<open>fileToBase64\<close> can leave it \<open>undefined\<close>.\<close>

record ImagePayload =
  ip_imageBytes :: "jsstring option"
  ip_mimeType :: jsstring

text \<open>The part of the long-running operation that the code reads:
  \<open>operation.done\<close> and \<open>operation.response?.generatedVideos?.[0]?.video?.uri\<close>.\<close>

record Video =
  v_uri :: "jsstring option"

record GeneratedVideo =
  gv_video :: "Video option"

record GenerateVideosResponse =
  r_generatedVideos :: "GeneratedVideo list option"

record Operation =
  op_done :: bool
  op_response :: "GenerateVideosResponse option"

type_synonym Blob = "8 word list"

record FetchResponse =
  fr_ok :: bool
  fr_blob :: "Thrown + Blob"

text \<open>The outside world of \<open>generateVideoInternal\<close>: the API key, the answer of
  \<open>ai.models.generateVideos\<close> to a request, the answer of the \<open>k\<close>-th call of
  \<open>ai.operations.getVideosOperation\<close> (counted from 0) on the operation handed to it,
  \<open>fetch\<close>, and \<open>URL.createObjectURL\<close>. An \<open>Inl\<close> is a rejected promise.\<close>

record VideoEnv =
  ve_API_KEY :: jsstring
  ve_generateVideos :: "jsstring \<Rightarrow> ImagePayload option \<Rightarrow> Thrown + Operation"
  ve_getVideosOperation :: "nat \<Rightarrow> Operation \<Rightarrow> Thrown + Operation"
  ve_fetch :: "jsstring \<Rightarrow> Thrown + FetchResponse"
  ve_createObjectURL :: "Blob \<Rightarrow> jsstring"

text \<open>What the polling loop does, in order: a \<open>setTimeout\<close> of so many milliseconds,
  then the \<open>k\<close>-th poll.\<close>

datatype VideoEvent = Timeout nat | Poll nat

definition downloadLink :: "Operation \<Rightarrow> jsstring option" where
  "downloadLink operation =
     (case op_response operation of
        None \<Rightarrow> None
      | Some response \<Rightarrow>
          (case r_generatedVideos response of
             None \<Rightarrow> None
           | Some [] \<Rightarrow> None
           | Some (g # _) \<Rightarrow>
               (case gv_video g of None \<Rightarrow> None | Some v \<Rightarrow> v_uri v)))"

text \<open>The \<open>while (!operation.done)\<close> loop. It need not end: a result \<open>None\<close> is a loop
  that runs forever. A rejected poll ends it with the exception.\<close>

partial_function (option) pollLoop ::
  "VideoEnv \<Rightarrow> nat \<Rightarrow> VideoEvent list \<Rightarrow> Operation \<Rightarrow> (VideoEvent list \<times> (Thrown + Operation)) option"
where
  "pollLoop env k events operation =
     (if op_done operation then Some (events, Inr operation)
      else
        (case ve_getVideosOperation env k operation of
           Inl e \<Rightarrow> Some (events @ [Timeout 10000, Poll k], Inl e)
         | Inr operation' \<Rightarrow> pollLoop env (Suc k) (events @ [Timeout 10000, Poll k]) operation'))"

text \<open>The rest of \<open>generateVideoInternal\<close> once the loop has ended.\<close>

definition download :: "VideoEnv \<Rightarrow> Operation \<Rightarrow> Thrown + jsstring" where
  "download env operation =
     (case downloadLink operation of
        None \<Rightarrow> Inl (Error (lit ''Video generation failed or did not return a valid link.''))
      | Some link \<Rightarrow>
          if link = []
          then Inl (Error (lit ''Video generation failed or did not return a valid link.''))
          else
            (case ve_fetch env (link @ lit ''&key='' @ ve_API_KEY env) of
               Inl e \<Rightarrow> Inl e
             | Inr videoResponse \<Rightarrow>
                 if \<not> fr_ok videoResponse
                 then Inl (Error (lit ''Failed to download the generated video.''))
                 else
                   (case fr_blob videoResponse of
                      Inl e \<Rightarrow> Inl e
                    | Inr videoBlob \<Rightarrow> Inr (ve_createObjectURL env videoBlob))))"

definition generateVideoInternal ::
  "VideoEnv \<Rightarrow> jsstring \<Rightarrow> ImagePayload option \<Rightarrow> (VideoEvent list \<times> (Thrown + jsstring)) option" where
  "generateVideoInternal env prompt image' =
     (case ve_generateVideos env prompt image' of
        Inl e \<Rightarrow> Some ([], Inl e)
      | Inr operation0 \<Rightarrow>
          (case pollLoop env 0 [] operation0 of
             None \<Rightarrow> None
           | Some (events, Inl e) \<Rightarrow> Some (events, Inl e)
           | Some (events, Inr operation) \<Rightarrow> Some (events, download env operation)))"

definition generateVideo ::
  "VideoEnv \<Rightarrow> jsstring \<Rightarrow> ImagePayload option \<Rightarrow> VideoStyle \<Rightarrow> jsstring \<Rightarrow> VideoDuration \<Rightarrow>
   CameraMovement \<Rightarrow> VideoQuality \<Rightarrow> Language \<Rightarrow> VideoFraming \<Rightarrow> AIPersona \<Rightarrow> bool \<Rightarrow>
   AspectRatio \<Rightarrow> VideoFPS \<Rightarrow> Intensity \<Rightarrow> AudioMood \<Rightarrow>
   (VideoEvent list \<times> (Thrown + jsstring)) option" where
  "generateVideo env prompt image' style negativePrompt duration cameraMovement quality language
     framing persona loop aspectRatio fps motionIntensity audioMood =
     generateVideoInternal env
       (constructVideoPrompt prompt style negativePrompt duration cameraMovement quality language
          framing persona loop aspectRatio fps motionIntensity audioMood)
       image'"

text \<open>\<open>generateSoundEffect\<close>, a mock: the line it logs, the delay of its timer in
  milliseconds, and the value its promise resolves with. It never rejects.\<close>

definition placeholderAudio :: jsstring where
  "placeholderAudio =
     lit ''data:audio/wav;base64,UklGRiQAAABXQVZFZm10IBAAAAABAAEARKwAAIhYAQACABAAZGF0YQAAAAA=''"

definition generateSoundEffect :: "jsstring \<Rightarrow> jsstring \<Rightarrow> jsstring \<times> nat \<times> (Thrown + jsstring)" where
  "generateSoundEffect prompt fxStyle =
     (lit ''Generate a sound effect for: '' @ prompt @ lit ''. Style: '' @ fxStyle,
      3000, Inr placeholderAudio)"

section \<open>Clock and dates\<close>

text \<open>\<open>Date.prototype.toISOString\<close> for a time value in milliseconds since the epoch:
  \<open>YYYY-MM-DDTHH:mm:ss.sssZ\<close>, with a sign and six digits for a year outside 0..9999.
  Days are turned into a civil date by the usual era computation on the proleptic
  Gregorian calendar. The function is total here; in JavaScript it throws beyond
  8.64e15 milliseconds either side of the epoch, a value that no clock returns.\<close>

definition pad :: "nat \<Rightarrow> nat \<Rightarrow> jsstring" where
  "pad w n = replicate (w - length (decimal_nat n)) 0x0030 @ decimal_nat n"

definition civil_from_days :: "int \<Rightarrow> int \<times> int \<times> int" where
  "civil_from_days z0 =
     (let z = z0 + 719468;
          era = z div 146097;
          doe = z - era * 146097;
          yoe = (doe - doe div 1460 + doe div 36524 - doe div 146096) div 365;
          y = yoe + era * 400;
          doy = doe - (365 * yoe + yoe div 4 - yoe div 100);
          mp = (5 * doy + 2) div 153;
          d = doy - (153 * mp + 2) div 5 + 1;
          m = (if mp < 10 then mp + 3 else mp - 9)
      in (if m \<le> 2 then y + 1 else y, m, d))"

definition toISOString :: "int \<Rightarrow> jsstring" where
  "toISOString t =
     (let ms = t mod 86400000;
          (y, m, d) = civil_from_days (t div 86400000);
          yearText = (if 0 \<le> y \<and> y \<le> 9999 then pad 4 (nat y)
                      else (if y < 0 then lit ''-'' else lit ''+'') @ pad 6 (nat \<bar>y\<bar>))
      in yearText @ lit ''-'' @ pad 2 (nat m) @ lit ''-'' @ pad 2 (nat d) @ lit ''T''
         @ pad 2 (nat (ms div 3600000)) @ lit '':'' @ pad 2 (nat (ms div 60000 mod 60))
         @ lit '':'' @ pad 2 (nat (ms div 1000 mod 60)) @ lit ''.'' @ pad 3 (nat (ms mod 1000))
         @ lit ''Z'')"

section \<open>App.tsx: application state, toasts and the library\<close>

datatype GenerationMode = GM_IMAGE | GM_VIDEO | GM_AUDIO | GM_LIBRARY | GM_PROFILE
  | GM_SETTINGS | GM_PREMIUM

record AppState =
  app_activeMode :: GenerationMode
  app_libraryItems :: "LibraryItem list"
  app_subscriptionTier :: SubscriptionTier
  app_toasts :: "Toast list"
  app_showUpgradeModal :: bool

text \<open>The initial values of the \<open>useState\<close> calls.\<close>

definition initialApp :: AppState where
  "initialApp = \<lparr>app_activeMode = GM_IMAGE, app_libraryItems = [], app_subscriptionTier = free,
     app_toasts = [], app_showUpgradeModal = False\<rparr>"

text \<open>What a toast reads from the environment: \<open>Date.now()\<close> and the text of
  \<open>Math.random()\<close>.\<close>

record ToastEnv =
  te_now :: int
  te_random :: jsstring

definition addToast :: "ToastEnv \<Rightarrow> jsstring \<Rightarrow> ToastType \<Rightarrow> AppState \<Rightarrow> AppState" where
  "addToast env msg ty app =
     app\<lparr>app_toasts := app_toasts app
            @ [\<lparr>t_id = decimal (te_now env) @ te_random env, t_message = msg, t_type = ty\<rparr>]\<rparr>"

text \<open>The argument of \<open>handleSaveToLibrary\<close>.\<close>

record SaveItem =
  si_type :: ItemType
  si_src :: jsstring
  si_settings :: GenerationSettings
  si_audioSrc :: "jsstring option"
  si_variations :: "jsstring list option"

text \<open>The clock readings of one \<open>handleSaveToLibrary\<close> call: \<open>Date.now()\<close> for the id,
  \<open>new Date()\<close> for \<open>createdAt\<close>, and the environment of the toast.\<close>

record SaveEnv =
  sv_now :: int
  sv_date :: int
  sv_toast :: ToastEnv

definition newItem :: "SaveEnv \<Rightarrow> SaveItem \<Rightarrow> LibraryItem" where
  "newItem env item =
     \<lparr>li_id = lit ''item-'' @ decimal (sv_now env),
      li_type = si_type item,
      li_src = si_src item,
      li_settings = si_settings item,
      li_createdAt = toISOString (sv_date env),
      li_variations = si_variations item,
      li_audioSrc = si_audioSrc item\<rparr>"

definition handleSaveToLibrary :: "SaveEnv \<Rightarrow> SaveItem \<Rightarrow> AppState \<Rightarrow> AppState" where
  "handleSaveToLibrary env item app =
     addToast (sv_toast env) (lit ''Saved to Library!'') success
       (app\<lparr>app_libraryItems := newItem env item # app_libraryItems app\<rparr>)"

definition promptUpgrade :: "AppState \<Rightarrow> AppState" where
  "promptUpgrade app = app\<lparr>app_showUpgradeModal := True\<rparr>"

text \<open>The tier save effect: \<open>localStorage.setItem('creative-suite-tier',
  JSON.stringify(subscriptionTier))\<close> inside \<open>try\<close>; a failure is logged only.\<close>

definition saveTierEffect :: "Thrown option \<Rightarrow> SubscriptionTier \<Rightarrow> Storage \<Rightarrow> Storage" where
  "saveTierEffect fault tier storage =
     (case setItem fault (lit ''creative-suite-tier'')
             (JSON_stringify_string (SubscriptionTier_str tier)) storage of
        Inl e \<Rightarrow> storage
      | Inr storage' \<Rightarrow> storage')"

text \<open>The startup load effect. It starts from the initial state (no library value
  set, tier \<open>free\<close>); \<open>ld_library\<close> is the value handed to \<open>setLibraryItems\<close>, if any.
  Both reads share one \<open>try\<close> block: a syntax error in the stored library skips the
  tier.\<close>

record Loaded =
  ld_library :: "JSONValue option"
  ld_tier :: SubscriptionTier

definition tier_of_string :: "jsstring \<Rightarrow> SubscriptionTier" where
  "tier_of_string s =
     (if s = lit ''silver'' then silver
      else if s = lit ''golden'' then golden
      else if s = lit ''diamond'' then diamond
      else free)"

definition startupLoad :: "(jsstring \<Rightarrow> bool) \<Rightarrow> Storage \<Rightarrow> Loaded" where
  "startupLoad valid_other storage =
     (let s0 = \<lparr>ld_library = None, ld_tier = free\<rparr>;
          afterLibrary =
            (case storage (lit ''creative-suite-library'') of
               None \<Rightarrow> Some s0
             | Some storedLibrary \<Rightarrow>
                 if storedLibrary = [] then Some s0
                 else (case JSON_parse valid_other storedLibrary of
                         None \<Rightarrow> None
                       | Some v \<Rightarrow> Some (s0\<lparr>ld_library := Some v\<rparr>)))
      in case afterLibrary of
           None \<Rightarrow> s0
         | Some s1 \<Rightarrow>
             (case storage (lit ''creative-suite-tier'') of
                None \<Rightarrow> s1
              | Some storedTier \<Rightarrow>
                  if storedTier = [] then s1
                  else (case JSON_parse valid_other storedTier of
                          None \<Rightarrow> s1
                        | Some v \<Rightarrow>
                            if v \<in> set (map JString
                                 [lit ''free'', lit ''silver'', lit ''golden'', lit ''diamond''])
                            then (case v of
                                    JString t \<Rightarrow> s1\<lparr>ld_tier := tier_of_string t\<rparr>
                                  | JOther _ \<Rightarrow> s1)
                            else s1)))"

section \<open>components/Library.tsx and components/Settings.tsx\<close>

text \<open>\<open>Library.handleDelete\<close> acts on the application state and on the component's
  \<open>selectedItem\<close>.\<close>

definition handleDelete ::
  "ToastEnv \<Rightarrow> jsstring \<Rightarrow> AppState \<times> LibraryItem option \<Rightarrow> AppState \<times> LibraryItem option" where
  "handleDelete env itemId ui =
     (case ui of (app, selectedItem) \<Rightarrow>
        (addToast env (lit ''Item deleted from library.'') success
           (app\<lparr>app_libraryItems := filter (\<lambda>item. li_id item \<noteq> itemId) (app_libraryItems app)\<rparr>),
         None))"

text \<open>\<open>Settings.handleClearLibrary\<close>; the second component is \<open>showClearConfirm\<close>.\<close>

definition handleClearLibrary :: "ToastEnv \<Rightarrow> AppState \<times> bool \<Rightarrow> AppState \<times> bool" where
  "handleClearLibrary env ui =
     (case ui of (app, showClearConfirm) \<Rightarrow>
        (addToast env (lit ''Creative Library has been cleared.'') success
           (app\<lparr>app_libraryItems := []\<rparr>),
         False))"

text \<open>The three operations on the library, and a run of them from a state.\<close>

datatype LibraryOp =
    SaveOp SaveEnv SaveItem
  | DeleteOp ToastEnv jsstring
  | ClearOp ToastEnv

fun library_step :: "AppState \<Rightarrow> LibraryOp \<Rightarrow> AppState" where
  "library_step app (SaveOp env item) = handleSaveToLibrary env item app"
| "library_step app (DeleteOp env itemId) = fst (handleDelete env itemId (app, None))"
| "library_step app (ClearOp env) = fst (handleClearLibrary env (app, True))"

definition library_run :: "LibraryOp list \<Rightarrow> AppState \<Rightarrow> AppState" where
  "library_run ops app = foldl library_step app ops"

section \<open>components/VideoGenerator.tsx: tiers and prompt history\<close>

fun tierLevels :: "SubscriptionTier \<Rightarrow> nat" where
  "tierLevels free = 0"
| "tierLevels silver = 1"
| "tierLevels golden = 2"
| "tierLevels diamond = 3"

text \<open>\<open>handlePremiumFeature\<close>: the component reads \<open>subscriptionTier\<close> from the application
  state; \<open>action\<close> is any closure over the user-interface state, which pairs the
  application state with the component's own state.\<close>

definition handlePremiumFeature ::
  "SubscriptionTier \<Rightarrow> (AppState \<times> 'c \<Rightarrow> AppState \<times> 'c) \<Rightarrow> AppState \<times> 'c \<Rightarrow> AppState \<times> 'c" where
  "handlePremiumFeature requiredTier action ui =
     (case ui of (app, local) \<Rightarrow>
        if tierLevels (app_subscriptionTier app) < tierLevels requiredTier
        then (promptUpgrade app, local)
        else action (app, local))"

text \<open>\<open>usePromptHistory(key).addPromptToHistory\<close>: the history state and the stored
  copy. \<open>setHistory\<close> runs before the storage write, so a refused write leaves the new
  history in place.\<close>

definition addPromptToHistory ::
  "Thrown option \<Rightarrow> jsstring \<Rightarrow> jsstring \<Rightarrow> jsstring list \<times> Storage \<Rightarrow> jsstring list \<times> Storage" where
  "addPromptToHistory fault key prompt hs =
     (case hs of (history, storage) \<Rightarrow>
        if trim prompt = [] then (history, storage)
        else
          let newHistory = take 10 (prompt # filter (\<lambda>p. p \<noteq> prompt) history)
          in (newHistory,
              case setItem fault key (JSON_stringify_strings newHistory) storage of
                Inl e \<Rightarrow> storage
              | Inr storage' \<Rightarrow> storage'))"

section \<open>components/VideoGenerator.tsx: handleSubmit\<close>

datatype VideoToolMode = text_to_video | image_to_video

definition LOADING_MESSAGES :: "jsstring list" where
  "LOADING_MESSAGES =
     [lit ''Warming up the digital director...'',
      lit ''Assembling pixels into scenes...'',
      lit ''Rendering cinematic magic...'',
      lit ''This can take a few minutes, patience is a virtue...'',
      lit ''Applying final visual effects...'',
      lit ''Almost there, preparing your epic video...'']"

text \<open>The \<open>label\<close> of an entry of \<open>audioMoods\<close>.\<close>

fun audioMood_label :: "AudioMood \<Rightarrow> jsstring" where
  "audioMood_label AM_none = lit ''None''"
| "audioMood_label epic = lit ''Epic Orchestral''"
| "audioMood_label ambient = lit ''Ambient Sci-Fi''"
| "audioMood_label lofi = lit ''Lo-Fi Beats''"
| "audioMood_label cinematic_tension = lit ''Cinematic Tension''"

text \<open>A \<open>File\<close>: its \<open>type\<close>. What \<open>FileReader.readAsDataURL\<close> yields for it comes from
  the environment: the data URL, or \<open>None\<close> when \<open>onerror\<close> fires (the promise is then
  rejected with the event, which is not an \<open>Error\<close>).\<close>

record File =
  f_name :: jsstring
  f_type :: jsstring

text \<open>\<open>s.split(',')\<close>\<close>

fun split_comma :: "jsstring \<Rightarrow> jsstring list" where
  "split_comma [] = [[]]"
| "split_comma (c # cs) =
     (if c = 0x002C then [] # split_comma cs
      else (case split_comma cs of [] \<Rightarrow> [[c]] | p # ps \<Rightarrow> (c # p) # ps))"

text \<open>\<open>fileToBase64\<close>; \<open>imageBytes\<close> is \<open>result.split(',')[1]\<close>, which is \<open>undefined\<close> when
  the result has no comma.\<close>

definition fileToBase64 :: "(File \<Rightarrow> jsstring option) \<Rightarrow> File \<Rightarrow> Thrown + ImagePayload" where
  "fileToBase64 readAsDataURL file =
     (case readAsDataURL file of
        None \<Rightarrow> Inl NonError
      | Some result \<Rightarrow>
          Inr \<lparr>ip_imageBytes =
                 (if 1 < length (split_comma result) then Some (split_comma result ! 1) else None),
               ip_mimeType = f_type file\<rparr>)"

record VideoGeneratorState =
  vg_mode :: VideoToolMode
  vg_prompt :: jsstring
  vg_negativePrompt :: jsstring
  vg_style :: VideoStyle
  vg_duration :: VideoDuration
  vg_cameraMovement :: CameraMovement
  vg_quality :: VideoQuality
  vg_language :: Language
  vg_framing :: VideoFraming
  vg_persona :: AIPersona
  vg_loopVideo :: bool
  vg_aspectRatio :: AspectRatio
  vg_fps :: VideoFPS
  vg_motionIntensity :: Intensity
  vg_audioMood :: AudioMood
  vg_imageFile :: "File option"
  vg_generatedVideo :: "jsstring option"
  vg_generatedAudio :: "jsstring option"
  vg_isLoading :: bool
  vg_error :: "jsstring option"
  vg_loadingMessage :: jsstring
  vg_lastSettings :: "GenerationSettings option"
  vg_promptHistory :: "jsstring list"

text \<open>The outside world of one \<open>handleSubmit\<close> call: the video service, the file
  reader, which of the two promises of \<open>Promise.all\<close> settles first, whether the browser
  refuses the history write, and the clocks of the library save and of the error
  toast.\<close>

record SubmitEnv =
  se_video :: VideoEnv
  se_readAsDataURL :: "File \<Rightarrow> jsstring option"
  se_soundFirst :: bool
  se_storageFault :: "Thrown option"
  se_save :: SaveEnv
  se_toast :: ToastEnv

text \<open>What \<open>handleSubmit\<close> does towards the outside, in order.\<close>

datatype SubmitEvent =
    ReadImage File
  | VideoRequest jsstring "ImagePayload option"
  | SoundRequest jsstring jsstring
  | AwaitAll
  | VideoProgress VideoEvent

text \<open>\<open>Promise.all([p, q])\<close> on the settled outcomes: it resolves with both values, or
  rejects with the rejection that came first.\<close>

definition Promise_all2 :: "bool \<Rightarrow> Thrown + 'a \<Rightarrow> Thrown + 'b \<Rightarrow> Thrown + 'a \<times> 'b" where
  "Promise_all2 secondFirst p q =
     (case p of
        Inl e1 \<Rightarrow> (case q of Inl e2 \<Rightarrow> Inl (if secondFirst then e2 else e1) | Inr b \<Rightarrow> Inl e1)
      | Inr a \<Rightarrow> (case q of Inl e2 \<Rightarrow> Inl e2 | Inr b \<Rightarrow> Inr (a, b)))"

definition currentSettings :: "VideoGeneratorState \<Rightarrow> GenerationSettings" where
  "currentSettings st =
     \<lparr>gs_prompts = [vg_prompt st],
      gs_negativePrompt = Some (vg_negativePrompt st),
      gs_style = Some (VideoStyle_str (vg_style st)),
      gs_language = Some (vg_language st),
      gs_persona = Some (vg_persona st),
      gs_aspectRatio = Some (vg_aspectRatio st),
      gs_seed = None,
      gs_duration = Some (vg_duration st),
      gs_cameraMovement = Some (vg_cameraMovement st),
      gs_quality = Some (vg_quality st),
      gs_framing = Some (vg_framing st),
      gs_loop = Some (vg_loopVideo st),
      gs_fps = Some (vg_fps st),
      gs_styleIntensity = None,
      gs_motionIntensity = Some (vg_motionIntensity st),
      gs_fxStyle = None,
      gs_audioMood = Some (vg_audioMood st),
      gs_batchSize = None,
      gs_negativeIntensity = None\<rparr>"

text \<open>\<open>err instanceof Error ? err.message : 'An unknown error occurred.'\<close>\<close>

definition errorMessage :: "Thrown \<Rightarrow> jsstring" where
  "errorMessage err =
     (case err of Error m \<Rightarrow> m | NonError \<Rightarrow> lit ''An unknown error occurred.'')"

text \<open>\<open>audioResult || undefined\<close>, and the test of \<open>if (audioResult)\<close>\<close>

definition truthy :: "jsstring option \<Rightarrow> jsstring option" where
  "truthy a = (case a of None \<Rightarrow> None | Some x \<Rightarrow> if x = [] then None else Some x)"

text \<open>\<open>(mode === 'image-to-video' && imageFile) ? await fileToBase64(imageFile) :
  undefined\<close>\<close>

definition imagePayload :: "SubmitEnv \<Rightarrow> VideoGeneratorState \<Rightarrow> Thrown + ImagePayload option" where
  "imagePayload env st =
     (case vg_imageFile st of
        None \<Rightarrow> Inr None
      | Some file \<Rightarrow>
          if vg_mode st = image_to_video
          then (case fileToBase64 (se_readAsDataURL env) file of
                  Inl e \<Rightarrow> Inl e
                | Inr payload \<Rightarrow> Inr (Some payload))
          else Inr None)"

text \<open>The file read that \<open>imagePayload\<close> performs, as an event.\<close>

definition imageReads :: "VideoGeneratorState \<Rightarrow> SubmitEvent list" where
  "imageReads st =
     (case vg_imageFile st of
        None \<Rightarrow> []
      | Some file \<Rightarrow> if vg_mode st = image_to_video then [ReadImage file] else [])"

text \<open>The state after the setters that run before the \<open>try\<close> block, with the history
  already updated by \<open>addPromptToHistory\<close>.\<close>

definition submitStarted :: "VideoGeneratorState \<Rightarrow> jsstring list \<Rightarrow> VideoGeneratorState" where
  "submitStarted st history =
     st\<lparr>vg_isLoading := True, vg_error := None, vg_generatedVideo := None,
        vg_generatedAudio := None, vg_loadingMessage := LOADING_MESSAGES ! 0,
        vg_lastSettings := Some (currentSettings st), vg_promptHistory := history\<rparr>"

text \<open>The \<open>catch\<close> block followed by \<open>finally\<close>.\<close>

definition submitFailed ::
  "SubmitEnv \<Rightarrow> Thrown \<Rightarrow> VideoGeneratorState \<times> AppState \<Rightarrow> VideoGeneratorState \<times> AppState" where
  "submitFailed env err ui =
     (case ui of (st, app) \<Rightarrow>
        (st\<lparr>vg_error := Some (errorMessage err), vg_isLoading := False\<rparr>,
         addToast (se_toast env) (errorMessage err) error app))"

text \<open>\<open>handleSubmit\<close> on the component state, the application state and the storage.
  The result pairs the events the handler has caused, in order, with the state it
  returns with. That state is \<open>None\<close> when the awaited video promise never settles: the
  handler then stays at its \<open>await\<close>, and the events are those up to it.\<close>

definition handleSubmit ::
  "SubmitEnv \<Rightarrow> VideoGeneratorState \<times> AppState \<times> Storage \<Rightarrow>
   SubmitEvent list \<times> (VideoGeneratorState \<times> AppState \<times> Storage) option" where
  "handleSubmit env world =
     (case world of (st, app, storage) \<Rightarrow>
        if vg_prompt st = []
        then ([], Some (st\<lparr>vg_error := Some (lit ''A prompt is required to generate a video.'')\<rparr>,
                        app, storage))
        else if vg_mode st = image_to_video \<and> vg_imageFile st = None
        then ([], Some (st\<lparr>vg_error :=
                               Some (lit ''An image is required for image-to-video generation.'')\<rparr>,
                        app, storage))
        else
          (case addPromptToHistory (se_storageFault env) (lit ''video-prompt-history'')
                  (vg_prompt st) (vg_promptHistory st, storage) of
             (history, storage') \<Rightarrow>
               let st1 = submitStarted st history;
                   reading = imageReads st
               in
               (case imagePayload env st of
                  Inl err \<Rightarrow>
                    (case submitFailed env err (st1, app) of
                       (st2, app') \<Rightarrow> (reading, Some (st2, app', storage')))
                | Inr payload \<Rightarrow>
                    let soundPrompt = lit ''A soundtrack for a video with an '' @ [DQUOTE]
                          @ audioMood_label (vg_audioMood st) @ [DQUOTE] @ lit '' mood'';
                        issued = reading @ [VideoRequest (vg_prompt st) payload]
                          @ (if vg_audioMood st \<noteq> AM_none
                             then [SoundRequest soundPrompt (AudioMood_str (vg_audioMood st))]
                             else [])
                          @ [AwaitAll]
                    in
                    (case generateVideo (se_video env) (vg_prompt st) payload
                            (vg_style st) (vg_negativePrompt st) (vg_duration st)
                            (vg_cameraMovement st) (vg_quality st) (vg_language st)
                            (vg_framing st) (vg_persona st) (vg_loopVideo st)
                            (vg_aspectRatio st) (vg_fps st) (vg_motionIntensity st)
                            (vg_audioMood st) of
                       None \<Rightarrow> (issued, None)
                     | Some (videoEvents, videoOutcome) \<Rightarrow>
                         let audioOutcome =
                               (if vg_audioMood st \<noteq> AM_none
                                then (case snd (snd (generateSoundEffect soundPrompt
                                                 (AudioMood_str (vg_audioMood st)))) of
                                        Inl e \<Rightarrow> Inl e
                                      | Inr a \<Rightarrow> Inr (Some a))
                                else Inr None);
                             events = issued @ map VideoProgress videoEvents
                         in
                         (case Promise_all2 (se_soundFirst env) videoOutcome audioOutcome of
                            Inl err \<Rightarrow>
                              (case submitFailed env err (st1, app) of
                                 (st2, app') \<Rightarrow> (events, Some (st2, app', storage')))
                          | Inr (videoResult, audioResult) \<Rightarrow>
                              (events,
                               Some (st1\<lparr>vg_generatedVideo := Some videoResult,
                                         vg_generatedAudio := truthy audioResult,
                                         vg_isLoading := False\<rparr>,
                                     handleSaveToLibrary (se_save env)
                                       \<lparr>si_type = VIDEO, si_src = videoResult,
                                        si_settings = currentSettings st,
                                        si_audioSrc = truthy audioResult,
                                        si_variations = None\<rparr> app,
                                     storage')))))))"

text \<open>\<open>isSubmitDisabled\<close>, the \<open>disabled\<close> attribute of the submit button.\<close>

definition isSubmitDisabled :: "VideoGeneratorState \<Rightarrow> bool" where
  "isSubmitDisabled st \<longleftrightarrow>
     vg_isLoading st \<or> vg_prompt st = []
     \<or> (vg_mode st = image_to_video \<and> vg_imageFile st = None)"

section \<open>Example data\<close>

text \<open>Concrete values on which the theorems below are instantiated.\<close>

definition example_settings :: "jsstring list \<Rightarrow> GenerationSettings" where
  "example_settings ps =
     \<lparr>gs_prompts = ps, gs_negativePrompt = None, gs_style = None, gs_language = None,
      gs_persona = None, gs_aspectRatio = None, gs_seed = None, gs_duration = None,
      gs_cameraMovement = None, gs_quality = None, gs_framing = None, gs_loop = None,
      gs_fps = None, gs_styleIntensity = None, gs_motionIntensity = None, gs_fxStyle = None,
      gs_audioMood = None, gs_batchSize = None, gs_negativeIntensity = None\<rparr>"

definition example_toast_env :: "int \<Rightarrow> ToastEnv" where
  "example_toast_env n = \<lparr>te_now = n, te_random = lit ''0.5''\<rparr>"

definition example_env :: "int \<Rightarrow> SaveEnv" where
  "example_env n = \<lparr>sv_now = n, sv_date = n, sv_toast = example_toast_env n\<rparr>"

definition example_arg :: SaveItem where
  "example_arg =
     \<lparr>si_type = VIDEO, si_src = lit ''blob:1'', si_settings = example_settings [lit ''cat''],
      si_audioSrc = None, si_variations = None\<rparr>"

definition example_app :: AppState where
  "example_app =
     initialApp\<lparr>app_libraryItems := [newItem (example_env 2) example_arg,
                                     newItem (example_env 1) example_arg]\<rparr>"

definition example_pending :: Operation where
  "example_pending = \<lparr>op_done = False, op_response = None\<rparr>"

definition example_finished :: Operation where
  "example_finished =
     \<lparr>op_done = True,
      op_response = Some \<lparr>r_generatedVideos =
        Some [\<lparr>gv_video = Some \<lparr>v_uri = Some (lit ''https://v/1?alt=media'')\<rparr>\<rparr>]\<rparr>\<rparr>"

definition example_failed :: Operation where
  "example_failed = \<lparr>op_done = True, op_response = None\<rparr>"

definition example_empty_uri :: Operation where
  "example_empty_uri =
     \<lparr>op_done = True,
      op_response = Some \<lparr>r_generatedVideos = Some [\<lparr>gv_video = Some \<lparr>v_uri = Some []\<rparr>\<rparr>]\<rparr>\<rparr>"

text \<open>An environment whose job is pending at the start and after the first poll, and
  done, with the given final operation, after the second.\<close>

definition example_video_env :: "Operation \<Rightarrow> VideoEnv" where
  "example_video_env final =
     \<lparr>ve_API_KEY = lit ''K'',
      ve_generateVideos = (\<lambda>prompt image'. Inr example_pending),
      ve_getVideosOperation = (\<lambda>k operation. if k = 0 then Inr example_pending else Inr final),
      ve_fetch = (\<lambda>url. Inr \<lparr>fr_ok = True, fr_blob = Inr [1, 2, 3]\<rparr>),
      ve_createObjectURL = (\<lambda>blob. lit ''blob:1'')\<rparr>"

definition example_ops :: "Operation \<Rightarrow> nat \<Rightarrow> Operation" where
  "example_ops final j = (if j < 2 then example_pending else final)"

text \<open>The initial state of the video form (the \<open>useState\<close> defaults), and an
  environment for a submission.\<close>

definition initialVideoGenerator :: VideoGeneratorState where
  "initialVideoGenerator =
     \<lparr>vg_mode = text_to_video, vg_prompt = [], vg_negativePrompt = [], vg_style = VS_none,
      vg_duration = short, vg_cameraMovement = CM_none, vg_quality = standard,
      vg_language = english, vg_framing = VF_none, vg_persona = cinematographer,
      vg_loopVideo = False, vg_aspectRatio = AR_1_1, vg_fps = FPS_24,
      vg_motionIntensity = balanced, vg_audioMood = AM_none, vg_imageFile = None,
      vg_generatedVideo = None, vg_generatedAudio = None, vg_isLoading = False,
      vg_error = None, vg_loadingMessage = LOADING_MESSAGES ! 0, vg_lastSettings = None,
      vg_promptHistory = []\<rparr>"

definition example_submit_env :: "Operation \<Rightarrow> SubmitEnv" where
  "example_submit_env final =
     \<lparr>se_video = example_video_env final, se_readAsDataURL = (\<lambda>file. None),
      se_soundFirst = True, se_storageFault = None, se_save = example_env 5,
      se_toast = example_toast_env 7\<rparr>"

text \<open>The video form in image-to-video mode, with a selected image.\<close>

definition example_image_file :: File where
  "example_image_file = \<lparr>f_name = lit ''cat.png'', f_type = lit ''image/png''\<rparr>"

definition example_image_form :: VideoGeneratorState where
  "example_image_form =
     initialVideoGenerator\<lparr>vg_mode := image_to_video, vg_prompt := lit ''a cat'',
       vg_audioMood := epic, vg_imageFile := Some example_image_file\<rparr>"

definition every_text_valid :: "jsstring \<Rightarrow> bool" where
  "every_text_valid text = True"

section \<open>Auxiliary notions used in the proofs\<close>

text \<open>\<open>rtrim\<close> strips trailing white space only; \<open>spaced a b\<close> joins two strings with one
  space unless one of them is empty; a segment is \<open>seg_ok\<close> when it is empty or neither
  starts nor ends with white space.\<close>

definition rtrim :: "jsstring \<Rightarrow> jsstring" where
  "rtrim s = rev (dropWhile isWhiteSpace (rev s))"

definition spaced :: "jsstring \<Rightarrow> jsstring \<Rightarrow> jsstring" where
  "spaced a b = (if a = [] then b else if b = [] then a else a @ [SPACE] @ b)"

definition seg_ok :: "jsstring \<Rightarrow> bool" where
  "seg_ok s \<longleftrightarrow> s = [] \<or> (\<not> isWhiteSpace (hd s) \<and> \<not> isWhiteSpace (last s))"

text \<open>Whether an event is the issue of the video request.\<close>

definition isVideoRequest :: "SubmitEvent \<Rightarrow> bool" where
  "isVideoRequest e = (case e of VideoRequest p d \<Rightarrow> True | _ \<Rightarrow> False)"

section \<open>Verification: string helpers\<close>

lemma lit_Nil: "lit [] = []"
  by (simp add: lit_def)

lemma lit_Cons: "lit (c # cs) = of_char c # lit cs"
  by (simp add: lit_def)

lemma isWhiteSpace_SPACE [simp]: "isWhiteSpace SPACE"
  by (simp add: isWhiteSpace_def SPACE_def)

lemma isWhiteSpace_LF [simp]: "isWhiteSpace LF"
  by (simp add: isWhiteSpace_def LF_def)

lemma dropWhile_hd_id: "xs \<noteq> [] \<Longrightarrow> \<not> P (hd xs) \<Longrightarrow> dropWhile P xs = xs"
  by (cases xs) simp_all

lemma trim_id: "xs \<noteq> [] \<Longrightarrow> \<not> isWhiteSpace (hd xs) \<Longrightarrow> \<not> isWhiteSpace (last xs) \<Longrightarrow> trim xs = xs"
  by (simp add: trim_def dropWhile_hd_id hd_rev)

lemma trim_append_ws:
  assumes "\<forall>c\<in>set w. isWhiteSpace c" "xs \<noteq> []" "\<not> isWhiteSpace (hd xs)"
  shows "trim (xs @ w) = trim xs"
proof -
  have 1: "dropWhile isWhiteSpace (xs @ w) = xs @ w" "dropWhile isWhiteSpace xs = xs"
    using assms(2,3) by (cases xs; simp)+
  have "dropWhile isWhiteSpace (rev w @ rev xs) = dropWhile isWhiteSpace (rev xs)"
    using assms(1) by (simp add: dropWhile_append)
  then show ?thesis by (simp add: trim_def 1)
qed

lemma persona_ne [simp]: "personaInstructions p \<noteq> []"
  by (cases p) (simp_all add: lit_Cons lit_Nil)

lemma persona_hd [simp]: "hd (personaInstructions p) = 0x41"
  by (cases p) (simp_all add: lit_Cons lit_Nil)

lemma persona_last [simp]: "last (personaInstructions p) = 0x2C"
  by (cases p) (simp_all add: lit_Cons lit_Nil)

lemma intensityMap_ne [simp]: "intensityMap i \<noteq> []"
  by (cases i) (simp_all add: lit_Cons lit_Nil)

lemma intensityMap_last [simp]: "last (intensityMap i) = 0x2E"
  by (cases i) (simp_all add: lit_Cons lit_Nil)

lemma image_mainPrompt_ne [simp]: "image_mainPrompt ps \<noteq> []"
  by (simp add: image_mainPrompt_def lit_Cons lit_Nil)

lemma image_mainPrompt_last [simp]: "last (image_mainPrompt ps) = 0x2E"
  by (simp add: image_mainPrompt_def lit_Cons lit_Nil)

lemma not_ws_punct [simp]: "\<not> isWhiteSpace 0x41" "\<not> isWhiteSpace 0x2E" "\<not> isWhiteSpace 0x2C"
  by (simp_all add: isWhiteSpace_def)

lemma image_lang_last: "image_languageInstruction l \<noteq> [] \<Longrightarrow> last (image_languageInstruction l) = 0x2E"
  by (simp add: image_languageInstruction_def lit_Cons lit_Nil split: if_splits)

lemma image_style_last: "image_styleInstruction s i \<noteq> [] \<Longrightarrow> last (image_styleInstruction s i) = 0x2E"
  by (simp add: image_styleInstruction_def lit_Cons lit_Nil split: if_splits)

lemma image_neg_last: "image_negativeInstruction n \<noteq> [] \<Longrightarrow> last (image_negativeInstruction n) = 0x2E"
  by (simp add: image_negativeInstruction_def lit_Cons lit_Nil split: if_splits)

lemma constructImagePrompt_closed:
  "constructImagePrompt prompts style neg language persona si =
     personaInstructions persona @ [SPACE] @ image_mainPrompt prompts @
     (if image_negativeInstruction neg \<noteq> []
      then [SPACE] @ image_languageInstruction language @ [SPACE] @ image_styleInstruction style si
           @ [SPACE] @ image_negativeInstruction neg
      else if image_styleInstruction style si \<noteq> []
      then [SPACE] @ image_languageInstruction language @ [SPACE] @ image_styleInstruction style si
      else if image_languageInstruction language \<noteq> []
      then [SPACE] @ image_languageInstruction language
      else [])"
proof -
  let ?P = "personaInstructions persona" and ?M = "image_mainPrompt prompts"
  let ?L = "image_languageInstruction language" and ?S = "image_styleInstruction style si"
  let ?N = "image_negativeInstruction neg"
  consider (n) "?N \<noteq> []" | (s) "?N = []" "?S \<noteq> []" | (l) "?N = []" "?S = []" "?L \<noteq> []"
    | (e) "?N = []" "?S = []" "?L = []" by blast
  then show ?thesis
  proof cases
    case n
    then show ?thesis
      by (simp add: constructImagePrompt_def trim_id image_neg_last)
  next
    case s
    have "trim ((?P @ [SPACE] @ ?M @ [SPACE] @ ?L @ [SPACE] @ ?S) @ [SPACE]) =
          trim (?P @ [SPACE] @ ?M @ [SPACE] @ ?L @ [SPACE] @ ?S)"
      by (rule trim_append_ws) simp_all
    with s show ?thesis
      by (simp add: constructImagePrompt_def trim_id image_style_last)
  next
    case l
    have "trim ((?P @ [SPACE] @ ?M @ [SPACE] @ ?L) @ [SPACE, SPACE]) =
          trim (?P @ [SPACE] @ ?M @ [SPACE] @ ?L)"
      by (rule trim_append_ws) simp_all
    with l show ?thesis
      by (simp add: constructImagePrompt_def trim_id image_lang_last)
  next
    case e
    have "trim ((?P @ [SPACE] @ ?M) @ [SPACE, SPACE, SPACE]) = trim (?P @ [SPACE] @ ?M)"
      by (rule trim_append_ws) simp_all
    with e show ?thesis
      by (simp add: constructImagePrompt_def trim_id)
  qed
qed

lemma sublist_mid: "sublist x (a @ x @ b)"
  unfolding sublist_def by blast

lemma sublist_mid_end: "sublist x (a @ x)"
  unfolding sublist_def by (metis append_Nil2)

section \<open>Verification: constructImagePrompt\<close>

text \<open>
  C1 as stated fails in the "only if" half of its three "appears iff" clauses: the
  caller's prompt is copied into the result, so an instruction can appear although its
  condition fails. Here the single prompt is the Kinyarwanda sentence itself and the
  language is \<open>english\<close>; the sentence is still a contiguous substring of the result.
\<close>

theorem constructImagePrompt_structure_counterexample:
  "english \<noteq> kinyarwanda
   \<and> sublist (lit ''The user is providing the prompt in Kinyarwanda; interpret it accordingly.'')
       (constructImagePrompt
          [lit ''The user is providing the prompt in Kinyarwanda; interpret it accordingly.'']
          (lit ''none'') [] english P_none balanced)"
proof -
  let ?k = "lit ''The user is providing the prompt in Kinyarwanda; interpret it accordingly.''"
  have "constructImagePrompt [?k] (lit ''none'') [] english P_none balanced =
      (personaInstructions P_none @ [SPACE] @ lit ''create the following image: '') @ ?k @ lit ''.''"
    by (subst constructImagePrompt_closed)
      (simp add: image_negativeInstruction_def image_styleInstruction_def
        image_languageInstruction_def image_mainPrompt_def)
  then have "sublist ?k (constructImagePrompt [?k] (lit ''none'') [] english P_none balanced)"
    unfolding sublist_def by blast
  then show ?thesis by simp
qed

text \<open>
  C1, amended. For a non-empty prompt list, \<open>constructImagePrompt\<close> returns one string \<open>r\<close>
  that begins with the persona's instruction text followed by the main sentence: the
  blend request over the prompts, each in double quotes and joined by \<open>and\<close>, when there
  is more than one prompt, and the create request for \<open>prompts[0]\<close> otherwise. The
  function emits the Kinyarwanda instruction iff the language is Kinyarwanda, the style
  instruction (with the intensity text) iff the style is not \<open>none\<close>, and the avoid
  instruction iff the negative prompt is non-empty: the second conjunct gives \<open>r\<close>
  exactly, as the persona text, the main sentence and, in this order, the emitted
  instructions \<open>L\<close>, \<open>S\<close> and \<open>N\<close>, where an instruction that is not emitted is the empty
  string. Hence each instruction appears in \<open>r\<close>, as a contiguous substring, whenever its
  condition holds. Finally \<open>r\<close> is trimmed: it is non-empty and neither starts nor ends
  with a white-space character.
\<close>

theorem constructImagePrompt_structure:
  assumes "prompts \<noteq> []"
  shows
   "(let r = constructImagePrompt prompts style negativePrompt language persona styleIntensity;
         mainSentence =
           (if 1 < length prompts
            then lit ''expertly blend the following distinct concepts into a single, cohesive, and beautiful image: ''
                 @ join (lit '' and '') (map (\<lambda>p. [DQUOTE] @ p @ [DQUOTE]) prompts) @ lit ''.''
            else lit ''create the following image: '' @ prompts ! 0 @ lit ''.'');
         styleText = lit ''Style: '' @ replace_first 0x002D SPACE style @ lit ''. Style Intensity: ''
                     @ intensityMap styleIntensity;
         avoidText = lit ''Avoid the following: '' @ negativePrompt @ lit ''.'';
         kinyarwandaText =
           lit ''The user is providing the prompt in Kinyarwanda; interpret it accordingly.'';
         L = (if language = kinyarwanda then kinyarwandaText else []);
         S = (if style \<noteq> lit ''none'' then styleText else []);
         N = (if negativePrompt \<noteq> [] then avoidText else [])
     in prefix (personaInstructions persona @ [SPACE] @ mainSentence) r
      \<and> r = personaInstructions persona @ [SPACE] @ mainSentence
            @ (if negativePrompt \<noteq> [] then [SPACE] @ L @ [SPACE] @ S @ [SPACE] @ N
               else if style \<noteq> lit ''none'' then [SPACE] @ L @ [SPACE] @ S
               else if language = kinyarwanda then [SPACE] @ L
               else [])
      \<and> (style \<noteq> lit ''none'' \<longrightarrow> sublist styleText r)
      \<and> (negativePrompt \<noteq> [] \<longrightarrow> sublist avoidText r)
      \<and> (language = kinyarwanda \<longrightarrow> sublist kinyarwandaText r)
      \<and> r \<noteq> [] \<and> \<not> isWhiteSpace (hd r) \<and> \<not> isWhiteSpace (last r))"
proof -
  let ?r = "constructImagePrompt prompts style negativePrompt language persona styleIntensity"
  let ?P = "personaInstructions persona" and ?M = "image_mainPrompt prompts"
  let ?L = "image_languageInstruction language"
  let ?S = "image_styleInstruction style styleIntensity"
  let ?N = "image_negativeInstruction negativePrompt"
  obtain p ps where ps: "prompts = p # ps" using assms by (cases prompts) auto
  have main: "image_mainPrompt prompts =
      (if 1 < length prompts
       then lit ''expertly blend the following distinct concepts into a single, cohesive, and beautiful image: ''
            @ join (lit '' and '') (map (\<lambda>p. [DQUOTE] @ p @ [DQUOTE]) prompts) @ lit ''.''
       else lit ''create the following image: '' @ prompts ! 0 @ lit ''.'')"
    unfolding image_mainPrompt_def ps by simp
  have Ne: "?N \<noteq> [] \<longleftrightarrow> negativePrompt \<noteq> []"
    by (simp add: image_negativeInstruction_def)
  have Se: "?S \<noteq> [] \<longleftrightarrow> style \<noteq> lit ''none''"
    by (simp add: image_styleInstruction_def)
  have Le: "?L \<noteq> [] \<longleftrightarrow> language = kinyarwanda"
    by (simp add: image_languageInstruction_def lit_Cons)
  note cf = constructImagePrompt_closed [of prompts style negativePrompt language persona styleIntensity]
  have c1: "prefix (?P @ [SPACE] @ ?M) ?r"
    by (subst cf) (simp add: prefix_def)
  have c2: "?r = ?P @ [SPACE] @ ?M
            @ (if negativePrompt \<noteq> [] then [SPACE] @ ?L @ [SPACE] @ ?S @ [SPACE] @ ?N
               else if style \<noteq> lit ''none'' then [SPACE] @ ?L @ [SPACE] @ ?S
               else if language = kinyarwanda then [SPACE] @ ?L
               else [])"
    by (subst cf) (simp only: Ne Se Le)
  have c3: "sublist ?S ?r" if "style \<noteq> lit ''none''"
  proof (cases "negativePrompt = []")
    case True
    with that have "?r = (?P @ [SPACE] @ ?M @ [SPACE] @ ?L @ [SPACE]) @ ?S @ []"
      by (subst c2) simp
    then show ?thesis unfolding sublist_def by blast
  next
    case False
    then have "?r = (?P @ [SPACE] @ ?M @ [SPACE] @ ?L @ [SPACE]) @ ?S @ ([SPACE] @ ?N)"
      by (subst c2) simp
    then show ?thesis unfolding sublist_def by blast
  qed
  have c4: "sublist ?N ?r" if "negativePrompt \<noteq> []"
  proof -
    from that have "?r = (?P @ [SPACE] @ ?M @ [SPACE] @ ?L @ [SPACE] @ ?S @ [SPACE]) @ ?N @ []"
      by (subst c2) simp
    then show ?thesis unfolding sublist_def by blast
  qed
  have c5: "sublist ?L ?r" if "language = kinyarwanda"
  proof -
    have "\<exists>b. ?r = (?P @ [SPACE] @ ?M @ [SPACE]) @ ?L @ b"
      using that by (subst c2) simp
    then show ?thesis unfolding sublist_def by blast
  qed
  have c6: "?r \<noteq> []" "\<not> isWhiteSpace (hd ?r)"
    by (subst cf, simp)+
  have c7: "\<not> isWhiteSpace (last ?r)"
    by (subst cf) (simp add: image_neg_last image_style_last image_lang_last)
  have Sd: "style \<noteq> lit ''none'' \<Longrightarrow> ?S = lit ''Style: '' @ replace_first 0x002D SPACE style
       @ lit ''. Style Intensity: '' @ intensityMap styleIntensity"
    by (simp add: image_styleInstruction_def)
  have Nd: "negativePrompt \<noteq> [] \<Longrightarrow> ?N = lit ''Avoid the following: '' @ negativePrompt @ lit ''.''"
    by (simp add: image_negativeInstruction_def)
  have Ld: "language = kinyarwanda \<Longrightarrow> ?L =
      lit ''The user is providing the prompt in Kinyarwanda; interpret it accordingly.''"
    by (simp add: image_languageInstruction_def)
  have S0: "?S = (if style \<noteq> lit ''none'' then lit ''Style: '' @ replace_first 0x002D SPACE style
       @ lit ''. Style Intensity: '' @ intensityMap styleIntensity else [])"
    by (simp add: image_styleInstruction_def)
  have N0: "?N = (if negativePrompt \<noteq> [] then lit ''Avoid the following: '' @ negativePrompt @ lit ''.'' else [])"
    by (simp add: image_negativeInstruction_def)
  have L0: "?L = (if language = kinyarwanda then
      lit ''The user is providing the prompt in Kinyarwanda; interpret it accordingly.'' else [])"
    by (simp add: image_languageInstruction_def)
  show ?thesis
    unfolding Let_def main [symmetric] S0 [symmetric] N0 [symmetric] L0 [symmetric]
  proof (intro conjI impI)
    show "prefix (?P @ [SPACE] @ ?M) ?r" by (rule c1)
    show "?r = ?P @ [SPACE] @ ?M
            @ (if negativePrompt \<noteq> [] then [SPACE] @ ?L @ [SPACE] @ ?S @ [SPACE] @ ?N
               else if style \<noteq> lit ''none'' then [SPACE] @ ?L @ [SPACE] @ ?S
               else if language = kinyarwanda then [SPACE] @ ?L
               else [])" by (rule c2)
    show "sublist (lit ''Style: '' @ replace_first 0x002D SPACE style
       @ lit ''. Style Intensity: '' @ intensityMap styleIntensity) ?r" if "style \<noteq> lit ''none''"
      using c3 [OF that] Sd [OF that] by (simp only:)
    show "sublist (lit ''Avoid the following: '' @ negativePrompt @ lit ''.'') ?r"
      if "negativePrompt \<noteq> []"
      using c4 [OF that] Nd [OF that] by (simp only:)
    show "sublist (lit ''The user is providing the prompt in Kinyarwanda; interpret it accordingly.'') ?r"
      if "language = kinyarwanda"
      using c5 [OF that] Ld [OF that] by (simp only:)
    show "?r \<noteq> []" by (rule c6)
    show "\<not> isWhiteSpace (hd ?r)" by (rule c6)
    show "\<not> isWhiteSpace (last ?r)" by (rule c7)
  qed
qed

theorem constructImagePrompt_structure_witness:
  "[lit ''cat'', lit ''dog''] \<noteq> [] \<and>
   constructImagePrompt [lit ''cat'', lit ''dog''] (lit ''pixel-art'') (lit ''blur'') kinyarwanda
     P_none subtle =
   lit ''As a versatile master artist, expertly blend the following distinct concepts into a single, cohesive, and beautiful image: \"cat\" and \"dog\". The user is providing the prompt in Kinyarwanda; interpret it accordingly. Style: pixel art. Style Intensity: with a subtle hint of the specified style. Avoid the following: blur.''"
  using constructImagePrompt_structure [of "[lit ''cat'', lit ''dog'']" "lit ''pixel-art''"
      "lit ''blur''" kinyarwanda P_none subtle]
  by (simp add: Let_def lit_Cons lit_Nil DQUOTE_def SPACE_def)

section \<open>Verification: white-space normalisation\<close>

lemma trim_rtrim: "trim s = rtrim (dropWhile isWhiteSpace s)"
  by (simp add: trim_def rtrim_def)

lemma rtrim_Nil [simp]: "rtrim [] = []"
  by (simp add: rtrim_def)

lemma rtrim_eq_Nil: "rtrim s = [] \<longleftrightarrow> (\<forall>c\<in>set s. isWhiteSpace c)"
  by (simp add: rtrim_def dropWhile_eq_Nil_conv)

lemma rtrim_append: "rtrim (a @ b) = (if rtrim b = [] then rtrim a else a @ rtrim b)"
  by (auto simp: rtrim_def dropWhile_append dropWhile_eq_Nil_conv)

lemma rtrim_id: "s \<noteq> [] \<Longrightarrow> \<not> isWhiteSpace (last s) \<Longrightarrow> rtrim s = s"
  by (simp add: rtrim_def dropWhile_hd_id hd_rev)

lemma collapse_ws_hd_id:
  "s = [] \<or> \<not> isWhiteSpace (hd s) \<Longrightarrow> dropWhile isWhiteSpace (collapse_ws s) = collapse_ws s"
  by (cases s) auto

lemma dropWhile_start: "dropWhile P xs = [] \<or> \<not> P (hd (dropWhile P xs))"
  using hd_dropWhile by blast

lemma ltrim_collapse_ws:
  "dropWhile isWhiteSpace (collapse_ws s) = collapse_ws (dropWhile isWhiteSpace s)"
proof (cases s)
  case Nil
  then show ?thesis by simp
next
  case (Cons c cs)
  show ?thesis
  proof (cases "isWhiteSpace c")
    case True
    then show ?thesis
      using collapse_ws_hd_id [OF dropWhile_start [of isWhiteSpace cs]] by (simp add: Cons)
  next
    case False
    then show ?thesis by (simp add: Cons)
  qed
qed

lemma collapse_ws_append_last:
  "a \<noteq> [] \<Longrightarrow> \<not> isWhiteSpace (last a) \<Longrightarrow> collapse_ws (a @ b) = collapse_ws a @ collapse_ws b"
proof (induction a rule: collapse_ws.induct)
  case 1
  then show ?case by simp
next
  case (2 c cs)
  show ?case
  proof (cases "isWhiteSpace c")
    case True
    with "2.prems" have cs: "cs \<noteq> []" "\<not> isWhiteSpace (last cs)" by (auto split: if_splits)
    then have ex: "last cs \<in> set cs" by simp
    have dw: "dropWhile isWhiteSpace (cs @ b) = dropWhile isWhiteSpace cs @ b"
      using ex cs(2) by (rule dropWhile_append1)
    have ne: "dropWhile isWhiteSpace cs \<noteq> []"
      using ex cs(2) by (auto simp: dropWhile_eq_Nil_conv)
    have la: "last (dropWhile isWhiteSpace cs) = last cs"
      using ne by (metis last_appendR takeWhile_dropWhile_id)
    show ?thesis
      using True "2.IH"(1) [OF True ne] la cs(2) by (simp add: dw)
  next
    case False
    show ?thesis
    proof (cases "cs = []")
      case True
      with False show ?thesis by simp
    next
      case ne: False
      with "2.prems" have "\<not> isWhiteSpace (last cs)" by simp
      with "2.IH"(2) [OF False ne] False show ?thesis by simp
    qed
  qed
qed

lemma collapse_ws_ws_append:
  "w \<noteq> [] \<Longrightarrow> \<forall>c\<in>set w. isWhiteSpace c \<Longrightarrow>
   collapse_ws (w @ t) = SPACE # collapse_ws (dropWhile isWhiteSpace t)"
  by (cases w) (simp_all add: dropWhile_append)

lemma collapse_ws_ne: "s \<noteq> [] \<Longrightarrow> collapse_ws s \<noteq> []"
  by (cases s) auto

lemma collapse_ws_hd: "s \<noteq> [] \<Longrightarrow> \<not> isWhiteSpace (hd s) \<Longrightarrow> hd (collapse_ws s) = hd s"
  by (cases s) auto

lemma collapse_ws_last:
  "s \<noteq> [] \<Longrightarrow> \<not> isWhiteSpace (last s) \<Longrightarrow> last (collapse_ws s) = last s"
proof (induction s rule: collapse_ws.induct)
  case 1
  then show ?case by simp
next
  case (2 c cs)
  show ?case
  proof (cases "isWhiteSpace c")
    case True
    with "2.prems" have cs: "cs \<noteq> []" "\<not> isWhiteSpace (last cs)" by (auto split: if_splits)
    then have ex: "last cs \<in> set cs" by simp
    have ne: "dropWhile isWhiteSpace cs \<noteq> []"
      using ex cs(2) by (auto simp: dropWhile_eq_Nil_conv)
    have la: "last (dropWhile isWhiteSpace cs) = last cs"
      using ne by (metis last_appendR takeWhile_dropWhile_id)
    show ?thesis
      using True "2.IH"(1) [OF True ne] la cs ne by (simp add: collapse_ws_ne)
  next
    case False
    show ?thesis
    proof (cases "cs = []")
      case True
      with False show ?thesis by simp
    next
      case ne: False
      with "2.prems" have "\<not> isWhiteSpace (last cs)" by simp
      with "2.IH"(2) [OF False ne] False ne show ?thesis by (simp add: collapse_ws_ne)
    qed
  qed
qed

text \<open>normal form\<close>

lemma norm_skip: "isWhiteSpace c \<Longrightarrow> trim (collapse_ws (c # t)) = trim (collapse_ws t)"
proof -
  assume c: "isWhiteSpace c"
  have "dropWhile isWhiteSpace (collapse_ws (c # t)) = dropWhile isWhiteSpace (collapse_ws t)"
    unfolding ltrim_collapse_ws using c by simp
  then show ?thesis by (simp add: trim_rtrim)
qed

lemma norm_seg: "seg_ok s \<Longrightarrow> trim (collapse_ws s) = collapse_ws s"
proof (cases "s = []")
  case True
  then show ?thesis by (simp add: trim_def)
next
  case False
  assume "seg_ok s"
  with False have h: "\<not> isWhiteSpace (hd s)" "\<not> isWhiteSpace (last s)" by (auto simp: seg_ok_def)
  show ?thesis
    by (rule trim_id) (simp_all add: False h collapse_ws_ne collapse_ws_hd collapse_ws_last)
qed

lemma norm_step:
  assumes "seg_ok s" "isWhiteSpace c"
  shows "trim (collapse_ws (s @ c # t)) = spaced (collapse_ws s) (trim (collapse_ws t))"
proof (cases "s = []")
  case True
  then show ?thesis using norm_skip [OF assms(2), of t] by (simp add: spaced_def del: collapse_ws.simps(2))
next
  case False
  with assms(1) have h: "\<not> isWhiteSpace (hd s)" "\<not> isWhiteSpace (last s)" by (auto simp: seg_ok_def)
  let ?Y = "collapse_ws (dropWhile isWhiteSpace t)"
  have 1: "collapse_ws (s @ c # t) = collapse_ws s @ SPACE # ?Y"
    using collapse_ws_append_last [OF False h(2), of "c # t"] assms(2) by simp
  have 2: "trim (collapse_ws t) = rtrim ?Y"
    by (simp add: trim_rtrim ltrim_collapse_ws)
  have 3: "dropWhile isWhiteSpace (collapse_ws s @ SPACE # ?Y) = collapse_ws s @ SPACE # ?Y"
    by (rule dropWhile_hd_id) (simp_all add: False h collapse_ws_ne collapse_ws_hd)
  have 4: "rtrim (collapse_ws s) = collapse_ws s"
    by (rule rtrim_id) (simp_all add: False h collapse_ws_ne collapse_ws_last)
  have 5: "rtrim (SPACE # ?Y) = (if rtrim ?Y = [] then [] else SPACE # rtrim ?Y)"
    using rtrim_append [of "[SPACE]" ?Y] by (simp add: rtrim_eq_Nil)
  have "trim (collapse_ws (s @ c # t)) = rtrim (collapse_ws s @ SPACE # ?Y)"
    by (simp add: trim_rtrim 1 3)
  also have "\<dots> = (if rtrim ?Y = [] then collapse_ws s else collapse_ws s @ SPACE # rtrim ?Y)"
    by (simp add: rtrim_append [of "collapse_ws s"] 4 5)
  finally show ?thesis
    by (simp add: 2 spaced_def False collapse_ws_ne)
qed

lemma foldr_spaced: "foldr spaced xs [] = join [SPACE] (filter (\<lambda>s. s \<noteq> []) xs)"
proof (induction xs)
  case Nil
  then show ?case by simp
next
  case (Cons x xs)
  show ?case
  proof (cases "filter (\<lambda>s. s \<noteq> []) xs")
    case Nil
    with Cons show ?thesis by (simp add: spaced_def)
  next
    case (Cons y ys)
    then have "y \<in> set (filter (\<lambda>s. s \<noteq> []) xs)" by simp
    then have "y \<noteq> []" by simp
    then have "join [SPACE] (y # ys) \<noteq> []" by (cases ys) simp_all
    with Cons Cons.IH show ?thesis by (simp add: spaced_def)
  qed
qed

lemma sublist_join: "x \<in> set xs \<Longrightarrow> sublist x (join sep xs)"
proof (induction sep xs rule: join.induct)
  case (1 sep)
  then show ?case by simp
next
  case (2 sep y)
  then show ?case by simp
next
  case (3 sep a b bs)
  show ?case
  proof (cases "x = a")
    case True
    then show ?thesis by (simp add: sublist_append_rightI)
  next
    case False
    with 3 have "sublist x (join sep (b # bs))" by simp
    then have "sublist x ((a @ sep) @ join sep (b # bs))"
      unfolding sublist_def by (metis append.assoc)
    then show ?thesis by simp
  qed
qed


lemma sublist_trim: "sublist (trim s) s"
proof -
  let ?X = "dropWhile isWhiteSpace s"
  have "sublist (dropWhile isWhiteSpace (rev ?X)) (rev ?X)"
    by (rule suffix_imp_sublist) (rule suffix_dropWhile)
  then have "sublist (trim s) ?X"
    unfolding trim_def by (metis sublist_rev rev_rev_ident)
  moreover have "sublist ?X s"
    by (rule suffix_imp_sublist) (rule suffix_dropWhile)
  ultimately show ?thesis by (rule sublist_order.order_trans)
qed

lemma trim_ends:
  assumes "trim s \<noteq> []"
  shows "\<not> isWhiteSpace (hd (trim s))" "\<not> isWhiteSpace (last (trim s))"
proof -
  let ?X = "dropWhile isWhiteSpace s"
  let ?Y = "dropWhile isWhiteSpace (rev ?X)"
  from assms have Y: "?Y \<noteq> []" by (simp add: trim_def)
  then have X: "?X \<noteq> []" by (cases ?X) simp_all
  have "last (trim s) = hd ?Y" using Y by (simp add: trim_def last_rev)
  then show "\<not> isWhiteSpace (last (trim s))" using Y hd_dropWhile by metis
  have "last ?Y = last (rev ?X)"
    using Y by (metis last_appendR takeWhile_dropWhile_id)
  then have "hd (trim s) = hd ?X" using Y X by (simp add: trim_def hd_rev last_rev)
  then show "\<not> isWhiteSpace (hd (trim s))" using X hd_dropWhile by metis
qed

lemma collapse_ws_start:
  "s = [] \<or> \<not> isWhiteSpace (hd s) \<Longrightarrow>
   collapse_ws s = [] \<or> \<not> isWhiteSpace (hd (collapse_ws s))"
  by (cases s) auto

lemma collapse_ws_only_spaces: "c \<in> set (collapse_ws s) \<Longrightarrow> isWhiteSpace c \<Longrightarrow> c = SPACE"
  by (induction s rule: collapse_ws.induct) (auto split: if_splits)

lemma collapse_ws_no_adjacent:
  "isWhiteSpace c \<Longrightarrow> isWhiteSpace d \<Longrightarrow> \<not> sublist [c, d] (collapse_ws s)"
proof (induction s rule: collapse_ws.induct)
  case 1
  then show ?case by simp
next
  case (2 x xs)
  show ?case
  proof (cases "isWhiteSpace x")
    case True
    let ?Y = "collapse_ws (dropWhile isWhiteSpace xs)"
    have "\<not> prefix [c, d] (SPACE # ?Y)"
    proof
      assume "prefix [c, d] (SPACE # ?Y)"
      then have "?Y \<noteq> []" "hd ?Y = d" by (auto simp: prefix_def)
      moreover have "?Y = [] \<or> \<not> isWhiteSpace (hd ?Y)"
        by (rule collapse_ws_start) (rule dropWhile_start)
      ultimately show False using "2.prems"(2) by simp
    qed
    with True "2.IH"(1) "2.prems" show ?thesis by (simp add: sublist_Cons_right)
  next
    case False
    then have "\<not> prefix [c, d] (x # collapse_ws xs)" using "2.prems"(1) by auto
    with False "2.IH"(2) "2.prems" show ?thesis by (simp add: sublist_Cons_right)
  qed
qed

lemma sublist_adjacent: "Suc i < length r \<Longrightarrow> sublist [r ! i, r ! Suc i] r"
proof -
  assume h: "Suc i < length r"
  then have "r = take i r @ r ! i # drop (Suc i) r" by (simp add: id_take_nth_drop)
  moreover have "drop (Suc i) r = r ! Suc i # drop (Suc (Suc i)) r"
    using h by (simp add: Cons_nth_drop_Suc)
  ultimately have "r = take i r @ [r ! i, r ! Suc i] @ drop (Suc (Suc i)) r" by simp
  then show ?thesis unfolding sublist_def by blast
qed

lemma normalized_trim_collapse:
  fixes s :: jsstring
  defines "r \<equiv> trim (collapse_ws s)"
  shows "(\<forall>c\<in>set r. isWhiteSpace c \<longrightarrow> c = SPACE)"
    and "(\<forall>i. Suc i < length r \<longrightarrow> \<not> (isWhiteSpace (r ! i) \<and> isWhiteSpace (r ! Suc i)))"
    and "r \<noteq> [] \<longrightarrow> \<not> isWhiteSpace (hd r) \<and> \<not> isWhiteSpace (last r)"
proof -
  have sub: "sublist r (collapse_ws s)" unfolding r_def by (rule sublist_trim)
  then have "set r \<subseteq> set (collapse_ws s)" by (rule set_mono_sublist)
  then show "\<forall>c\<in>set r. isWhiteSpace c \<longrightarrow> c = SPACE"
    using collapse_ws_only_spaces by blast
  show "\<forall>i. Suc i < length r \<longrightarrow> \<not> (isWhiteSpace (r ! i) \<and> isWhiteSpace (r ! Suc i))"
  proof (intro allI impI notI)
    fix i assume "Suc i < length r" and w: "isWhiteSpace (r ! i) \<and> isWhiteSpace (r ! Suc i)"
    then have "sublist [r ! i, r ! Suc i] r" by (simp add: sublist_adjacent)
    then have "sublist [r ! i, r ! Suc i] (collapse_ws s)"
      using sub by (rule sublist_order.order_trans)
    with w show False using collapse_ws_no_adjacent by blast
  qed
  show "r \<noteq> [] \<longrightarrow> \<not> isWhiteSpace (hd r) \<and> \<not> isWhiteSpace (last r)"
    unfolding r_def using trim_ends by blast
qed

lemma lit_eq_Nil [simp]: "lit s = [] \<longleftrightarrow> s = []"
  by (simp add: lit_def)

lemma ws_print: "0x21 \<le> c \<Longrightarrow> c \<le> 0x7E \<Longrightarrow> isWhiteSpace c = False"
  unfolding isWhiteSpace_def by (auto simp: word_le_nat_alt)

lemma ws_space: "isWhiteSpace 0x20 = True"
  by (simp add: isWhiteSpace_def)

lemmas ev = lit_Cons lit_Nil ws_print ws_space SPACE_def seg_ok_def

lemma decimal_fps: "decimal (VideoFPS_num f) = (case f of FPS_24 \<Rightarrow> lit ''24'' | FPS_30 \<Rightarrow> lit ''30'' | FPS_60 \<Rightarrow> lit ''60'')"
  by (cases f) (simp_all add: decimal_def lit_Cons lit_Nil decimal_nat.simps [of 24]
      decimal_nat.simps [of 30] decimal_nat.simps [of 60] decimal_nat.simps [of 2]
      decimal_nat.simps [of 3] decimal_nat.simps [of 6])

lemma seg_video_head: "seg_ok (video_head persona prompt)"
  by (simp add: video_head_def seg_ok_def lit_Cons lit_Nil)

lemma seg_video_negative: "seg_ok (video_negativeInstruction n)"
  by (simp add: video_negativeInstruction_def ev)

lemma seg_video_language:
  "seg_ok (video_languageInstruction l)"
  "collapse_ws (video_languageInstruction l) = video_languageInstruction l"
  by (cases l, simp_all add: video_languageInstruction_def ev)+

lemma seg_video_style:
  "seg_ok (video_styleInstruction x)"
  "collapse_ws (video_styleInstruction x) = video_styleInstruction x"
  by (cases x, simp_all add: video_styleInstruction_def ev)+

lemma seg_camera:
  "seg_ok (cameraInstruction c m)"
  "collapse_ws (cameraInstruction c m) = cameraInstruction c m"
  by (cases c; cases m, simp_all add: cameraInstruction_def ev)+

lemma seg_framing:
  "seg_ok (framingInstruction x)"
  "collapse_ws (framingInstruction x) = framingInstruction x"
  by (cases x, simp_all add: framingInstruction_def ev)+

lemma seg_duration:
  "seg_ok (durationInstruction x)"
  "collapse_ws (durationInstruction x) = durationInstruction x"
  by (cases x, simp_all add: durationInstruction_def ev)+

lemma seg_quality:
  "seg_ok (qualityInstruction x)"
  "collapse_ws (qualityInstruction x) = qualityInstruction x"
  by (cases x, simp_all add: qualityInstruction_def ev)+

lemma seg_aspect:
  "seg_ok (aspectInstruction x)"
  "collapse_ws (aspectInstruction x) = aspectInstruction x"
  by (cases x, simp_all add: aspectInstruction_def ev)+

lemma seg_fps:
  "seg_ok (fpsInstruction x)"
  "collapse_ws (fpsInstruction x) = fpsInstruction x"
  by (cases x, simp_all add: fpsInstruction_def decimal_fps ev)+

lemma seg_audio:
  "seg_ok (audioInstruction x)"
  "collapse_ws (audioInstruction x) = audioInstruction x"
  by (cases x, simp_all add: audioInstruction_def ev)+

lemma seg_loop:
  "seg_ok (loopInstruction x)"
  "collapse_ws (loopInstruction x) = loopInstruction x"
  by (cases x, simp_all add: loopInstruction_def ev)+

lemma norm_step_NL:
  "seg_ok s \<Longrightarrow> trim (collapse_ws (s @ NL @ t)) = spaced (collapse_ws s) (trim (collapse_ws t))"
proof -
  assume s: "seg_ok s"
  have "trim (collapse_ws (s @ NL @ t)) =
        spaced (collapse_ws s) (trim (collapse_ws ([SPACE, SPACE, SPACE, SPACE] @ t)))"
    using norm_step [OF s isWhiteSpace_LF] by (simp add: NL_def)
  also have "trim (collapse_ws ([SPACE, SPACE, SPACE, SPACE] @ t)) = trim (collapse_ws t)"
    using norm_skip [OF isWhiteSpace_SPACE] by simp
  finally show ?thesis .
qed

lemma norm_step_SPACE_NL:
  "seg_ok s \<Longrightarrow>
   trim (collapse_ws (s @ [SPACE] @ NL @ t)) = spaced (collapse_ws s) (trim (collapse_ws t))"
proof -
  assume s: "seg_ok s"
  have "trim (collapse_ws (s @ [SPACE] @ NL @ t)) =
        spaced (collapse_ws s) (trim (collapse_ws (NL @ t)))"
    using norm_step [OF s isWhiteSpace_SPACE] by simp
  also have "trim (collapse_ws (NL @ t)) = trim (collapse_ws t)"
    using norm_step_NL [of "[]" t] by (simp add: seg_ok_def spaced_def)
  finally show ?thesis .
qed


lemma spaced_Nil2: "spaced a [] = a"
  by (simp add: spaced_def)

lemma trim_seg: "seg_ok s \<Longrightarrow> trim s = s"
  by (cases "s = []") (simp_all add: seg_ok_def trim_id, simp add: trim_def)

lemma constructVideoPrompt_closed:
  "constructVideoPrompt prompt style negativePrompt duration cameraMovement quality language
     framing persona loop aspectRatio fps motionIntensity audioMood =
   join [SPACE] (filter (\<lambda>s. s \<noteq> [])
     [collapse_ws (video_head persona prompt),
      video_languageInstruction language,
      video_styleInstruction style,
      cameraInstruction cameraMovement motionIntensity,
      framingInstruction framing,
      durationInstruction duration,
      qualityInstruction quality,
      aspectInstruction aspectRatio,
      fpsInstruction fps,
      audioInstruction audioMood,
      collapse_ws (video_negativeInstruction negativePrompt),
      loopInstruction loop])"
proof -
  have "constructVideoPrompt prompt style negativePrompt duration cameraMovement quality language
     framing persona loop aspectRatio fps motionIntensity audioMood =
    spaced (collapse_ws (video_head persona prompt))
     (spaced (video_languageInstruction language)
     (spaced (video_styleInstruction style)
     (spaced (cameraInstruction cameraMovement motionIntensity)
     (spaced (framingInstruction framing)
     (spaced (durationInstruction duration)
     (spaced (qualityInstruction quality)
     (spaced (aspectInstruction aspectRatio)
     (spaced (fpsInstruction fps)
     (spaced (audioInstruction audioMood)
     (spaced (collapse_ws (video_negativeInstruction negativePrompt))
       (loopInstruction loop)))))))))))"
    unfolding constructVideoPrompt_def video_template_def
    by (simp only: concat.simps append_Nil2 norm_step_NL norm_step_SPACE_NL norm_seg trim_seg
      seg_video_head seg_video_negative seg_video_language seg_video_style seg_camera
      seg_framing seg_duration seg_quality seg_aspect seg_fps seg_audio seg_loop)
  then show ?thesis
    unfolding foldr_spaced [symmetric] by (simp only: foldr.simps o_apply id_apply spaced_Nil2)
qed

lemma decimal_numerals: "decimal 24 = lit ''24''" "decimal 30 = lit ''30''" "decimal 60 = lit ''60''"
  by (simp_all add: decimal_def lit_Cons lit_Nil decimal_nat.simps [of 24]
      decimal_nat.simps [of 30] decimal_nat.simps [of 60] decimal_nat.simps [of 2]
      decimal_nat.simps [of 3] decimal_nat.simps [of 6])

section \<open>Verification: constructVideoPrompt\<close>

text \<open>
  C6 as stated fails in the "only if" half of its "contains iff" clauses: the caller's
  prompt is copied into the result, so an optional sentence can be contained although
  its condition fails. Here the prompt is the seamless-loop sentence itself and \<open>loop\<close>
  is false; the sentence is still a contiguous substring of the result.
\<close>

theorem constructVideoPrompt_structure_counterexample:
  "sublist (lit ''The video must be a perfect, seamless loop.'')
     (constructVideoPrompt (lit ''The video must be a perfect, seamless loop.'') VS_none []
        short CM_none standard english VF_none P_none False AR_1_1 FPS_24 balanced AM_none)"
proof -
  let ?l = "lit ''The video must be a perfect, seamless loop.''"
  let ?h = "video_head P_none ?l"
  let ?r = "constructVideoPrompt ?l VS_none [] short CM_none standard english VF_none P_none
              False AR_1_1 FPS_24 balanced AM_none"
  have c: "collapse_ws ?h = ?h"
    by (simp add: video_head_def DQUOTE_def ev)
  have ne: "?h \<noteq> []"
    by (simp add: video_head_def)
  have "?h \<in> set (filter (\<lambda>s. s \<noteq> [])
     [collapse_ws ?h, video_languageInstruction english, video_styleInstruction VS_none,
      cameraInstruction CM_none balanced, framingInstruction VF_none, durationInstruction short,
      qualityInstruction standard, aspectInstruction AR_1_1, fpsInstruction FPS_24,
      audioInstruction AM_none, collapse_ws (video_negativeInstruction []),
      loopInstruction False])"
    using ne by (simp only: c set_filter mem_Collect_eq list.set_intros simp_thms)
  then have "sublist ?h ?r"
    unfolding constructVideoPrompt_closed by (rule sublist_join)
  moreover have "sublist ?l ?h"
    unfolding video_head_def sublist_def by (metis append.assoc)
  ultimately show ?thesis
    by (rule sublist_order.order_trans [rotated])
qed

text \<open>
  C6, amended. For every argument tuple, \<open>constructVideoPrompt\<close> returns one string \<open>r\<close>. It
  always contains, as contiguous substrings, the duration-goal instruction of the given
  duration, the aspect-ratio instruction and the frame-rate instruction; it contains the
  camera, framing, style and audio-mood instructions whenever the corresponding argument
  is not \<open>none\<close>, the 8K quality sentence whenever the quality is \<open>high\<close>, and the
  seamless-loop sentence whenever \<open>loop\<close> holds. The function emits each of these
  optional instructions iff its condition holds: the tenth conjunct gives \<open>r\<close> exactly,
  as the template's twelve slots, the empty ones removed, joined by single spaces, where
  the slot of an optional instruction is empty exactly when its condition fails (the
  head and the avoid slot carry caller text and are white-space collapsed). Finally
  every white-space character of \<open>r\<close> is a space, no two white-space characters are
  adjacent, and \<open>r\<close> neither starts nor ends with white space.
\<close>

theorem constructVideoPrompt_structure:
  "(let r = constructVideoPrompt prompt style negativePrompt duration cameraMovement quality
             language framing persona loop aspectRatio fps motionIntensity audioMood;
        headText = personaInstructions persona @ lit '' create a video based on this scene: ''
                   @ [DQUOTE] @ prompt @ [DQUOTE] @ lit ''.'';
        languageText = lit ''The user is providing the prompt in Kinyarwanda; interpret it as a creative instruction for the scene.'';
        styleText = lit ''Visual Style: '' @ VideoStyle_str style @ lit ''.'';
        cameraText = lit ''Camera Movement: A '' @ motionIntensityMap motionIntensity @ [SPACE]
                     @ replace_first 0x002D SPACE (CameraMovement_str cameraMovement) @ lit ''.'';
        framingText = lit ''Shot Framing: Use a ''
                      @ replace_first 0x002D SPACE (VideoFraming_str framing) @ lit ''.'';
        durationText = lit ''Duration Goal: '' @ durationMap duration @ lit ''.'';
        qualityText = lit ''Output Quality: Aim for 8K resolution, ultra-high fidelity, with photorealistic rendering and professional color grading.'';
        aspectText = lit ''Aspect Ratio: The final video must be in ''
                     @ AspectRatio_str aspectRatio @ lit '' format.'';
        fpsText = lit ''Frame Rate: The video must be rendered at ''
                  @ decimal (VideoFPS_num fps) @ lit '' frames per second.'';
        audioText = lit ''The overall mood of the scene should be appropriate for a soundtrack that is ''
                    @ replace_first 0x002D SPACE (AudioMood_str audioMood) @ lit ''.'';
        avoidText = lit ''Crucially, avoid the following elements: '' @ negativePrompt @ lit ''.'';
        loopText = lit ''The video must be a perfect, seamless loop.''
    in sublist durationText r \<and> sublist aspectText r \<and> sublist fpsText r
     \<and> (cameraMovement \<noteq> CM_none \<longrightarrow> sublist cameraText r)
     \<and> (framing \<noteq> VF_none \<longrightarrow> sublist framingText r)
     \<and> (style \<noteq> VS_none \<longrightarrow> sublist styleText r)
     \<and> (audioMood \<noteq> AM_none \<longrightarrow> sublist audioText r)
     \<and> (quality = high \<longrightarrow> sublist qualityText r)
     \<and> (loop \<longrightarrow> sublist loopText r)
     \<and> r = join [SPACE] (filter (\<lambda>s. s \<noteq> [])
           [collapse_ws headText,
            if language = kinyarwanda then languageText else [],
            if style \<noteq> VS_none then styleText else [],
            if cameraMovement \<noteq> CM_none then cameraText else [],
            if framing \<noteq> VF_none then framingText else [],
            durationText,
            if quality = high then qualityText else [],
            aspectText,
            fpsText,
            if audioMood \<noteq> AM_none then audioText else [],
            collapse_ws (if negativePrompt \<noteq> [] then avoidText else []),
            if loop then loopText else []])
     \<and> (\<forall>c\<in>set r. isWhiteSpace c \<longrightarrow> c = SPACE)
     \<and> (\<forall>i. Suc i < length r \<longrightarrow> \<not> (isWhiteSpace (r ! i) \<and> isWhiteSpace (r ! Suc i)))
     \<and> r \<noteq> [] \<and> \<not> isWhiteSpace (hd r) \<and> \<not> isWhiteSpace (last r))"
proof -
  let ?r = "constructVideoPrompt prompt style negativePrompt duration cameraMovement quality
             language framing persona loop aspectRatio fps motionIntensity audioMood"
  let ?segs = "[collapse_ws (video_head persona prompt),
      video_languageInstruction language,
      video_styleInstruction style,
      cameraInstruction cameraMovement motionIntensity,
      framingInstruction framing,
      durationInstruction duration,
      qualityInstruction quality,
      aspectInstruction aspectRatio,
      fpsInstruction fps,
      audioInstruction audioMood,
      collapse_ws (video_negativeInstruction negativePrompt),
      loopInstruction loop]"
  have cf: "?r = join [SPACE] (filter (\<lambda>s. s \<noteq> []) ?segs)"
    by (rule constructVideoPrompt_closed)
  have sub: "sublist x ?r" if "x \<in> set ?segs" "x \<noteq> []" for x
  proof -
    from that have "x \<in> set (filter (\<lambda>s. s \<noteq> []) ?segs)"
      by (simp only: set_filter mem_Collect_eq simp_thms)
    then show ?thesis unfolding cf by (rule sublist_join)
  qed
  have d: "sublist (durationInstruction duration) ?r"
    by (rule sub) (simp_all add: durationInstruction_def)
  have a: "sublist (aspectInstruction aspectRatio) ?r"
    by (rule sub) (simp_all add: aspectInstruction_def)
  have f: "sublist (fpsInstruction fps) ?r"
    by (rule sub) (simp_all add: fpsInstruction_def)
  have c: "sublist (cameraInstruction cameraMovement motionIntensity) ?r"
    if "cameraMovement \<noteq> CM_none"
    by (rule sub) (simp_all add: cameraInstruction_def that)
  have fr: "sublist (framingInstruction framing) ?r" if "framing \<noteq> VF_none"
    by (rule sub) (simp_all add: framingInstruction_def that)
  have st: "sublist (video_styleInstruction style) ?r" if "style \<noteq> VS_none"
    by (rule sub) (simp_all add: video_styleInstruction_def that)
  have au: "sublist (audioInstruction audioMood) ?r" if "audioMood \<noteq> AM_none"
    by (rule sub) (simp_all add: audioInstruction_def that)
  have q: "sublist (qualityInstruction quality) ?r" if "quality = high"
    by (rule sub) (simp_all add: qualityInstruction_def that)
  have l: "sublist (loopInstruction loop) ?r" if "loop"
    by (rule sub) (simp_all add: loopInstruction_def that)
  have n: "\<forall>c\<in>set ?r. isWhiteSpace c \<longrightarrow> c = SPACE"
    "\<forall>i. Suc i < length ?r \<longrightarrow> \<not> (isWhiteSpace (?r ! i) \<and> isWhiteSpace (?r ! Suc i))"
    "?r \<noteq> [] \<longrightarrow> \<not> isWhiteSpace (hd ?r) \<and> \<not> isWhiteSpace (last ?r)"
    unfolding constructVideoPrompt_def by (rule normalized_trim_collapse)+
  have ne: "?r \<noteq> []"
  proof
    assume "?r = []"
    with d have "durationInstruction duration = []" by simp
    then show False by (simp add: durationInstruction_def)
  qed
  show ?thesis
    unfolding Let_def
  proof (intro conjI impI)
    show "sublist (lit ''Duration Goal: '' @ durationMap duration @ lit ''.'') ?r"
      using d by (simp only: durationInstruction_def)
    show "sublist (lit ''Aspect Ratio: The final video must be in ''
                     @ AspectRatio_str aspectRatio @ lit '' format.'') ?r"
      using a by (simp only: aspectInstruction_def)
    show "sublist (lit ''Frame Rate: The video must be rendered at ''
                  @ decimal (VideoFPS_num fps) @ lit '' frames per second.'') ?r"
      using f by (simp only: fpsInstruction_def)
    show "sublist (lit ''Camera Movement: A '' @ motionIntensityMap motionIntensity @ [SPACE]
                     @ replace_first 0x002D SPACE (CameraMovement_str cameraMovement) @ lit ''.'') ?r"
      if "cameraMovement \<noteq> CM_none"
      using c [OF that] that by (simp only: cameraInstruction_def if_True not_False_eq_True simp_thms)
    show "sublist (lit ''Shot Framing: Use a ''
                      @ replace_first 0x002D SPACE (VideoFraming_str framing) @ lit ''.'') ?r"
      if "framing \<noteq> VF_none"
      using fr [OF that] that by (simp only: framingInstruction_def if_True not_False_eq_True simp_thms)
    show "sublist (lit ''Visual Style: '' @ VideoStyle_str style @ lit ''.'') ?r"
      if "style \<noteq> VS_none"
      using st [OF that] that by (simp only: video_styleInstruction_def if_True not_False_eq_True simp_thms)
    show "sublist (lit ''The overall mood of the scene should be appropriate for a soundtrack that is ''
                    @ replace_first 0x002D SPACE (AudioMood_str audioMood) @ lit ''.'') ?r"
      if "audioMood \<noteq> AM_none"
      using au [OF that] that by (simp only: audioInstruction_def if_True not_False_eq_True simp_thms)
    show "sublist (lit ''Output Quality: Aim for 8K resolution, ultra-high fidelity, with photorealistic rendering and professional color grading.'') ?r"
      if "quality = high"
      using q [OF that] that by (simp only: qualityInstruction_def if_True not_False_eq_True simp_thms)
    show "sublist (lit ''The video must be a perfect, seamless loop.'') ?r" if "loop"
      using l [OF that] that by (simp only: loopInstruction_def if_True not_False_eq_True simp_thms)
    show "?r = join [SPACE] (filter (\<lambda>s. s \<noteq> [])
           [collapse_ws (personaInstructions persona @ lit '' create a video based on this scene: ''
                   @ [DQUOTE] @ prompt @ [DQUOTE] @ lit ''.''),
            if language = kinyarwanda then lit ''The user is providing the prompt in Kinyarwanda; interpret it as a creative instruction for the scene.'' else [],
            if style \<noteq> VS_none then lit ''Visual Style: '' @ VideoStyle_str style @ lit ''.'' else [],
            if cameraMovement \<noteq> CM_none then lit ''Camera Movement: A '' @ motionIntensityMap motionIntensity @ [SPACE]
                     @ replace_first 0x002D SPACE (CameraMovement_str cameraMovement) @ lit ''.'' else [],
            if framing \<noteq> VF_none then lit ''Shot Framing: Use a ''
                      @ replace_first 0x002D SPACE (VideoFraming_str framing) @ lit ''.'' else [],
            lit ''Duration Goal: '' @ durationMap duration @ lit ''.'',
            if quality = high then lit ''Output Quality: Aim for 8K resolution, ultra-high fidelity, with photorealistic rendering and professional color grading.'' else [],
            lit ''Aspect Ratio: The final video must be in ''
                     @ AspectRatio_str aspectRatio @ lit '' format.'',
            lit ''Frame Rate: The video must be rendered at ''
                  @ decimal (VideoFPS_num fps) @ lit '' frames per second.'',
            if audioMood \<noteq> AM_none then lit ''The overall mood of the scene should be appropriate for a soundtrack that is ''
                    @ replace_first 0x002D SPACE (AudioMood_str audioMood) @ lit ''.'' else [],
            collapse_ws (if negativePrompt \<noteq> [] then lit ''Crucially, avoid the following elements: '' @ negativePrompt @ lit ''.'' else []),
            if loop then lit ''The video must be a perfect, seamless loop.'' else []])"
      using cf by (simp only: video_head_def video_languageInstruction_def
          video_styleInstruction_def cameraInstruction_def framingInstruction_def
          durationInstruction_def qualityInstruction_def aspectInstruction_def
          fpsInstruction_def audioInstruction_def video_negativeInstruction_def
          loopInstruction_def)
    show "\<forall>c\<in>set ?r. isWhiteSpace c \<longrightarrow> c = SPACE" by (rule n)
    show "\<forall>i. Suc i < length ?r \<longrightarrow> \<not> (isWhiteSpace (?r ! i) \<and> isWhiteSpace (?r ! Suc i))"
      by (rule n)
    show "?r \<noteq> []" by (rule ne)
    show "\<not> isWhiteSpace (hd ?r)" using n(3) ne by blast
    show "\<not> isWhiteSpace (last ?r)" using n(3) ne by blast
  qed
qed

theorem constructVideoPrompt_structure_witness:
  "constructVideoPrompt (lit ''a  cat'') cinematic [] short zoom_in standard english VF_none
     cinematographer True AR_16_9 FPS_24 strong AM_none =
   lit ''As a world-class cinematographer and VFX artist, create a video based on this scene: \"a cat\". Visual Style: cinematic. Camera Movement: A dynamic and fast-paced zoom in. Duration Goal: a short clip, approximately 5-8 seconds long.. Aspect Ratio: The final video must be in 16:9 format. Frame Rate: The video must be rendered at 24 frames per second. The video must be a perfect, seamless loop.''"
  using constructVideoPrompt_structure [of "lit ''a  cat''" cinematic "[]" short zoom_in standard
      english VF_none cinematographer True AR_16_9 FPS_24 strong AM_none]
  by (simp add: Let_def lit_Cons lit_Nil ws_print ws_space DQUOTE_def SPACE_def decimal_numerals)

section \<open>Verification: the library\<close>

lemma decimal_small: "decimal 1 = lit ''1''" "decimal 2 = lit ''2''" "decimal 9 = lit ''9''"
  by (simp_all add: decimal_def decimal_nat.simps lit_Cons lit_Nil)

text \<open>
  C10. \<open>Library.handleDelete(itemId)\<close> is frame-preserving. The new library list holds
  exactly the previous items whose id differs from \<open>itemId\<close>; it is a subsequence of the
  previous list, so the kept items are unchanged and in the same relative order; every
  kept item occurs as often as before and no removed one occurs; and when no item has
  that id the list is unchanged. The tier, the active mode and the upgrade dialog are
  untouched.
\<close>

theorem handleDelete_frame:
  "(let items = app_libraryItems app;
        app' = fst (handleDelete env itemId (app, selectedItem));
        items' = app_libraryItems app'
    in (\<forall>item. item \<in> set items' \<longleftrightarrow> item \<in> set items \<and> li_id item \<noteq> itemId)
     \<and> subseq items' items
     \<and> (\<forall>item. count_list items' item = (if li_id item = itemId then 0 else count_list items item))
     \<and> items' = filter (\<lambda>item. li_id item \<noteq> itemId) items
     \<and> ((\<forall>item\<in>set items. li_id item \<noteq> itemId) \<longrightarrow> items' = items)
     \<and> app_subscriptionTier app' = app_subscriptionTier app
     \<and> app_activeMode app' = app_activeMode app
     \<and> app_showUpgradeModal app' = app_showUpgradeModal app)"
proof -
  let ?items = "app_libraryItems app"
  let ?f = "filter (\<lambda>item. li_id item \<noteq> itemId) ?items"
  have eq: "app_libraryItems (fst (handleDelete env itemId (app, selectedItem))) = ?f"
    by (simp add: handleDelete_def addToast_def)
  have cnt: "count_list (filter P xs) x = (if P x then count_list xs x else 0)" for P and xs :: "LibraryItem list" and x
    by (induction xs) auto
  have "\<forall>item. count_list ?f item = (if li_id item = itemId then 0 else count_list ?items item)"
    by (simp add: cnt)
  moreover have "(\<forall>item\<in>set ?items. li_id item \<noteq> itemId) \<longrightarrow> ?f = ?items"
    by (simp add: filter_id_conv)
  moreover have "subseq ?f ?items" by simp
  moreover have "\<forall>item. item \<in> set ?f \<longleftrightarrow> item \<in> set ?items \<and> li_id item \<noteq> itemId" by simp
  ultimately show ?thesis
    unfolding Let_def eq by (simp add: handleDelete_def addToast_def)
qed

theorem handleDelete_frame_witness:
  "app_libraryItems (fst (handleDelete (example_toast_env 3) (lit ''item-1'') (example_app, None)))
     = [newItem (example_env 2) example_arg]
   \<and> map li_id (app_libraryItems example_app) = [lit ''item-2'', lit ''item-1'']
   \<and> app_libraryItems (fst (handleDelete (example_toast_env 3) (lit ''item-9'') (example_app, None)))
     = app_libraryItems example_app"
  using handleDelete_frame [where app = example_app and env = "example_toast_env 3"
      and itemId = "lit ''item-1''" and selectedItem = None]
    handleDelete_frame [where app = example_app and env = "example_toast_env 3"
      and itemId = "lit ''item-9''" and selectedItem = None]
  by (simp add: Let_def example_app_def newItem_def example_env_def decimal_small lit_Cons lit_Nil)

lemma toISOString_ne: "toISOString t \<noteq> []"
  by (simp add: toISOString_def Let_def split: prod.splits)

lemma library_step_items:
  "set (app_libraryItems (library_step app op)) \<subseteq>
     set (app_libraryItems app) \<union> {newItem env item | env item. op = SaveOp env item}"
  by (cases op) (auto simp: handleSaveToLibrary_def handleDelete_def handleClearLibrary_def
      addToast_def)

lemma library_run_items:
  "set (app_libraryItems (library_run ops app)) \<subseteq>
     set (app_libraryItems app) \<union> {newItem env item | env item. SaveOp env item \<in> set ops}"
proof (induction ops arbitrary: app)
  case Nil
  then show ?case by (simp add: library_run_def)
next
  case (Cons op ops)
  have "library_run (op # ops) app = library_run ops (library_step app op)"
    by (simp add: library_run_def)
  moreover have "set (app_libraryItems (library_run ops (library_step app op))) \<subseteq>
      set (app_libraryItems (library_step app op))
        \<union> {newItem env item | env item. SaveOp env item \<in> set ops}"
    by (rule Cons.IH)
  moreover note library_step_items [of app op]
  ultimately show ?case
    by (simp only: set_simps) blast
qed

text \<open>
  C7. Field presence is an invariant of the library list. Starting from the empty
  list of the initial state, after any sequence of \<open>handleSaveToLibrary\<close>, per-item
  delete and clear-library operations, every item of the list has a non-empty \<open>id\<close> and
  a non-empty \<open>createdAt\<close>, both assigned at insertion time (the id is \<open>item-\<close> followed by
  the clock reading, \<open>createdAt\<close> the ISO text of the date read then), a type that is
  \<open>IMAGE\<close> or \<open>VIDEO\<close>, and the \<open>src\<close> and the settings, with their \<open>prompts\<close> array,
  of the save call that inserted it. The fields \<open>src\<close>, \<open>settings\<close> and \<open>prompts\<close> are
  required by the TypeScript types and so are total fields of the records here.
\<close>

theorem library_field_presence:
  "\<forall>item \<in> set (app_libraryItems (library_run ops initialApp)).
     li_id item \<noteq> [] \<and> li_createdAt item \<noteq> []
     \<and> (li_type item = IMAGE \<or> li_type item = VIDEO)
     \<and> (\<exists>env arg. SaveOp env arg \<in> set ops
            \<and> li_id item = lit ''item-'' @ decimal (sv_now env)
            \<and> li_createdAt item = toISOString (sv_date env)
            \<and> li_type item = si_type arg \<and> li_src item = si_src arg
            \<and> li_settings item = si_settings arg
            \<and> gs_prompts (li_settings item) = gs_prompts (si_settings arg))"
proof
  fix item assume "item \<in> set (app_libraryItems (library_run ops initialApp))"
  with library_run_items [of ops initialApp]
  obtain env arg where s: "SaveOp env arg \<in> set ops" and i: "item = newItem env arg"
    by (auto simp: initialApp_def)
  have t: "li_type item = IMAGE \<or> li_type item = VIDEO" by (cases "li_type item") auto
  have "li_id item \<noteq> []" by (simp add: i newItem_def lit_Cons)
  moreover have "li_createdAt item \<noteq> []" by (simp add: i newItem_def toISOString_ne)
  moreover have "\<exists>env arg. SaveOp env arg \<in> set ops
            \<and> li_id item = lit ''item-'' @ decimal (sv_now env)
            \<and> li_createdAt item = toISOString (sv_date env)
            \<and> li_type item = si_type arg \<and> li_src item = si_src arg
            \<and> li_settings item = si_settings arg
            \<and> gs_prompts (li_settings item) = gs_prompts (si_settings arg)"
    using s by (intro exI [of _ env] exI [of _ arg]) (simp add: i newItem_def)
  ultimately show "li_id item \<noteq> [] \<and> li_createdAt item \<noteq> []
     \<and> (li_type item = IMAGE \<or> li_type item = VIDEO)
     \<and> (\<exists>env arg. SaveOp env arg \<in> set ops
            \<and> li_id item = lit ''item-'' @ decimal (sv_now env)
            \<and> li_createdAt item = toISOString (sv_date env)
            \<and> li_type item = si_type arg \<and> li_src item = si_src arg
            \<and> li_settings item = si_settings arg
            \<and> gs_prompts (li_settings item) = gs_prompts (si_settings arg))"
    using t by blast
qed

theorem library_field_presence_witness:
  "newItem (example_env 2) example_arg
     \<in> set (app_libraryItems (library_run
          [SaveOp (example_env 1) example_arg, SaveOp (example_env 2) example_arg,
           DeleteOp (example_toast_env 3) (lit ''item-1'')] initialApp))
   \<and> li_id (newItem (example_env 2) example_arg) = lit ''item-2''
   \<and> li_createdAt (newItem (example_env 2) example_arg) \<noteq> []"
  using library_field_presence [where ops = "[SaveOp (example_env 1) example_arg,
      SaveOp (example_env 2) example_arg, DeleteOp (example_toast_env 3) (lit ''item-1'')]"]
  by (simp add: library_run_def handleSaveToLibrary_def handleDelete_def addToast_def
      initialApp_def newItem_def example_env_def decimal_small lit_Cons lit_Nil)

section \<open>Verification: prompt history\<close>

text \<open>
  C9. \<open>addPromptToHistory\<close> keeps a bounded, deduplicated, most-recent-first history.
  If the prompt trims to the empty string the history is unchanged. Otherwise the new
  history is the prompt followed by the old history with every element equal to the
  prompt removed, cut to ten entries: its length is at most 10, its first element is
  the prompt, and the prompt occurs in it exactly once.
\<close>

theorem addPromptToHistory_bounded:
  "(let h' = fst (addPromptToHistory fault key p (h, storage))
    in (trim p = [] \<longrightarrow> h' = h)
     \<and> (trim p \<noteq> [] \<longrightarrow>
          h' = take 10 (p # removeAll p h) \<and> length h' \<le> 10 \<and> h' \<noteq> [] \<and> hd h' = p
          \<and> count_list h' p = 1))"
proof -
  have f: "filter (\<lambda>q. q \<noteq> p) h = removeAll p h"
    by (induction h) auto
  have "p \<notin> set (take 9 (removeAll p h))"
    using in_set_takeD by fastforce
  then have c: "count_list (take 9 (removeAll p h)) p = 0"
    by (simp add: count_list_0_iff)
  have t: "take 10 (p # removeAll p h) = p # take 9 (removeAll p h)"
    by (simp add: take_Cons')
  show ?thesis
    unfolding Let_def by (simp add: addPromptToHistory_def f t c Let_def)
qed

theorem addPromptToHistory_bounded_witness:
  "trim (lit ''a'') \<noteq> []
   \<and> fst (addPromptToHistory None (lit ''video-prompt-history'') (lit ''a'')
            ([lit ''b'', lit ''a'', lit ''c''], Map.empty)) = [lit ''a'', lit ''b'', lit ''c'']
   \<and> trim (lit '' '') = []
   \<and> fst (addPromptToHistory None (lit ''video-prompt-history'') (lit '' '')
            ([lit ''b'', lit ''a'', lit ''c''], Map.empty)) = [lit ''b'', lit ''a'', lit ''c'']"
  using addPromptToHistory_bounded [where p = "lit ''a''" and fault = None
      and key = "lit ''video-prompt-history''" and h = "[lit ''b'', lit ''a'', lit ''c'']"
      and storage = Map.empty]
    addPromptToHistory_bounded [where p = "lit '' ''" and fault = None
      and key = "lit ''video-prompt-history''" and h = "[lit ''b'', lit ''a'', lit ''c'']"
      and storage = Map.empty]
  by (simp add: Let_def trim_def isWhiteSpace_def lit_Cons lit_Nil)

section \<open>Verification: the premium gate\<close>

text \<open>
  C8. \<open>handlePremiumFeature(requiredTier, action)\<close> runs the wrapped action exactly when
  the level of the current tier is at least the level of the required tier, the levels
  being ordered free < silver < golden < diamond: then the result is that of the
  action. Otherwise only \<open>promptUpgrade\<close> runs: the upgrade dialog is shown and the
  component state, hence the gated setting, is unchanged.
\<close>

theorem handlePremiumFeature_gate:
  "(tierLevels requiredTier \<le> tierLevels (app_subscriptionTier app) \<longrightarrow>
      handlePremiumFeature requiredTier action (app, local) = action (app, local))
   \<and> (tierLevels (app_subscriptionTier app) < tierLevels requiredTier \<longrightarrow>
      handlePremiumFeature requiredTier action (app, local)
        = (app\<lparr>app_showUpgradeModal := True\<rparr>, local))
   \<and> tierLevels free < tierLevels silver \<and> tierLevels silver < tierLevels golden
   \<and> tierLevels golden < tierLevels diamond"
  by (simp add: handlePremiumFeature_def promptUpgrade_def)

theorem handlePremiumFeature_gate_witness:
  "tierLevels (app_subscriptionTier initialApp) < tierLevels silver
   \<and> handlePremiumFeature silver (\<lambda>(a, d). (a, medium)) (initialApp, short)
       = (initialApp\<lparr>app_showUpgradeModal := True\<rparr>, short)
   \<and> tierLevels silver \<le> tierLevels (app_subscriptionTier (initialApp\<lparr>app_subscriptionTier := golden\<rparr>))
   \<and> handlePremiumFeature silver (\<lambda>(a, d). (a, medium))
         (initialApp\<lparr>app_subscriptionTier := golden\<rparr>, short)
       = (initialApp\<lparr>app_subscriptionTier := golden\<rparr>, medium)"
  using handlePremiumFeature_gate [where requiredTier = silver and app = initialApp
      and action = "\<lambda>(a, d). (a, medium)" and local = short]
    handlePremiumFeature_gate [where requiredTier = silver
      and app = "initialApp\<lparr>app_subscriptionTier := golden\<rparr>"
      and action = "\<lambda>(a, d). (a, medium)" and local = short]
  by (simp add: initialApp_def)

section \<open>Verification: tier persistence\<close>

lemma tier_key_ne: "lit ''creative-suite-library'' \<noteq> lit ''creative-suite-tier''"
  by (simp add: lit_Cons lit_Nil)

lemma parse_stringify_tier:
  "JSON_parse valid (JSON_stringify_string (SubscriptionTier_str t)) = Some (JString (SubscriptionTier_str t))"
  by (cases t) (simp_all add: JSON_parse_def JSON_stringify_string_def lit_Cons lit_Nil DQUOTE_def
      quote_unit_def isHighSurrogate_def isLowSurrogate_def isJSONWhiteSpace_def cons_result_def
      unicode_escape_def)

lemma tier_of_string_str: "tier_of_string (SubscriptionTier_str t) = t"
  by (cases t) (simp_all add: tier_of_string_def lit_Cons lit_Nil)

lemma tier_str_whitelist:
  "JString (SubscriptionTier_str t) \<in> set (map JString [lit ''free'', lit ''silver'', lit ''golden'', lit ''diamond''])"
  by (cases t) simp_all

text \<open>
  C5 as stated fails: the startup load reads the library and the tier in one \<open>try\<close>
  block, and a stored library entry that is not valid JSON (here a lone double quote)
  throws before the tier is read, so a stored tier \<open>silver\<close> is not restored.
\<close>

theorem tier_roundtrip_counterexample:
  "ld_tier (startupLoad every_text_valid
      (saveTierEffect None silver (Map.empty(lit ''creative-suite-library'' \<mapsto> [DQUOTE]))))
   \<noteq> silver"
  using tier_key_ne
  by (simp add: every_text_valid_def startupLoad_def saveTierEffect_def setItem_def JSON_parse_def DQUOTE_def
      isJSONWhiteSpace_def Let_def)

text \<open>
  C5, amended. For every tier \<open>t\<close>, setting the tier to \<open>t\<close> (which stores
  \<open>JSON.stringify(t)\<close> under \<open>creative-suite-tier\<close> when the browser accepts the write)
  followed by the startup load restores exactly \<open>t\<close>, provided the stored
  \<open>creative-suite-library\<close> entry is absent, empty or valid JSON. And whenever the
  stored tier entry is absent or does not parse to one of the four whitelisted strings,
  the startup load leaves the tier at its initial value \<open>free\<close>.
\<close>

theorem tier_roundtrip:
  "((case storage (lit ''creative-suite-library'') of
       None \<Rightarrow> True
     | Some storedLibrary \<Rightarrow> storedLibrary = [] \<or> JSON_parse valid_other storedLibrary \<noteq> None) \<longrightarrow>
      saveTierEffect None t storage (lit ''creative-suite-tier'')
        = Some (JSON_stringify_string (SubscriptionTier_str t))
      \<and> ld_tier (startupLoad valid_other (saveTierEffect None t storage)) = t)
   \<and> ((case storage (lit ''creative-suite-tier'') of
         None \<Rightarrow> True
       | Some storedTier \<Rightarrow>
           JSON_parse valid_other storedTier \<notin>
             {Some (JString (lit ''free'')), Some (JString (lit ''silver'')),
              Some (JString (lit ''golden'')), Some (JString (lit ''diamond''))}) \<longrightarrow>
        ld_tier (startupLoad valid_other storage) = free)"
proof (intro conjI impI)
  let ?st = "saveTierEffect None t storage"
  have st: "?st = storage(lit ''creative-suite-tier'' \<mapsto> JSON_stringify_string (SubscriptionTier_str t))"
    by (simp add: saveTierEffect_def setItem_def)
  show "?st (lit ''creative-suite-tier'') = Some (JSON_stringify_string (SubscriptionTier_str t))"
    by (simp add: st)
  assume lib: "case storage (lit ''creative-suite-library'') of
       None \<Rightarrow> True
     | Some storedLibrary \<Rightarrow> storedLibrary = [] \<or> JSON_parse valid_other storedLibrary \<noteq> None"
  have l: "?st (lit ''creative-suite-library'') = storage (lit ''creative-suite-library'')"
    using tier_key_ne by (simp add: st)
  have ne: "JSON_stringify_string (SubscriptionTier_str t) \<noteq> []"
    by (simp add: JSON_stringify_string_def)
  show "ld_tier (startupLoad valid_other ?st) = t"
    using lib tier_str_whitelist [of t] unfolding startupLoad_def l
    by (auto simp: st ne parse_stringify_tier tier_of_string_str Let_def simp del: set_map list.set
        split: option.splits)
next
  assume "case storage (lit ''creative-suite-tier'') of
         None \<Rightarrow> True
       | Some storedTier \<Rightarrow>
           JSON_parse valid_other storedTier \<notin>
             {Some (JString (lit ''free'')), Some (JString (lit ''silver'')),
              Some (JString (lit ''golden'')), Some (JString (lit ''diamond''))}"
  then show "ld_tier (startupLoad valid_other storage) = free"
    unfolding startupLoad_def
    by (auto simp: Let_def split: option.splits JSONValue.splits)
qed

theorem tier_roundtrip_witness:
  "(case (Map.empty :: Storage) (lit ''creative-suite-library'') of
       None \<Rightarrow> True
     | Some storedLibrary \<Rightarrow> storedLibrary = [] \<or> JSON_parse (\<lambda>_. True) storedLibrary \<noteq> None)
   \<and> ld_tier (startupLoad (\<lambda>_. True) (saveTierEffect None golden Map.empty)) = golden
   \<and> (case (Map.empty(lit ''creative-suite-tier'' \<mapsto> lit ''7'')) (lit ''creative-suite-tier'') of
         None \<Rightarrow> True
       | Some storedTier \<Rightarrow>
           JSON_parse (\<lambda>_. True) storedTier \<notin>
             {Some (JString (lit ''free'')), Some (JString (lit ''silver'')),
              Some (JString (lit ''golden'')), Some (JString (lit ''diamond''))})
   \<and> ld_tier (startupLoad (\<lambda>_. True) (Map.empty(lit ''creative-suite-tier'' \<mapsto> lit ''7''))) = free"
  using tier_roundtrip [where storage = Map.empty and valid_other = "\<lambda>_. True" and t = golden]
    tier_roundtrip [where storage = "Map.empty(lit ''creative-suite-tier'' \<mapsto> lit ''7'')"
      and valid_other = "\<lambda>_. True" and t = golden]
  by (simp add: JSON_parse_def lit_Cons lit_Nil isJSONWhiteSpace_def DQUOTE_def)

section \<open>Verification: the polling loop of generateVideoInternal\<close>

lemma pollLoop_first_done:
  assumes "\<And>j. k \<le> j \<Longrightarrow> j < n \<Longrightarrow>
             \<not> op_done (ops j) \<and> ve_getVideosOperation env j (ops j) = Inr (ops (Suc j))"
    and "op_done (ops n)" and "k \<le> n"
  shows "pollLoop env k events (ops k) =
           Some (events @ concat (map (\<lambda>j. [Timeout 10000, Poll j]) [k..<n]), Inr (ops n))"
  using assms
proof (induction "n - k" arbitrary: k events)
  case 0
  then have "k = n" by simp
  with "0.prems"(2) show ?case by (subst pollLoop.simps) simp
next
  case (Suc d)
  then have lt: "k < n" by simp
  with Suc.prems(1) [of k]
  have nd: "\<not> op_done (ops k)" and st: "ve_getVideosOperation env k (ops k) = Inr (ops (Suc k))"
    by auto
  have "pollLoop env (Suc k) (events @ [Timeout 10000, Poll k]) (ops (Suc k)) =
      Some ((events @ [Timeout 10000, Poll k])
              @ concat (map (\<lambda>j. [Timeout 10000, Poll j]) [Suc k..<n]), Inr (ops n))"
  proof (rule Suc.hyps(1))
    show "d = n - Suc k" using Suc.hyps(2) by simp
    show "\<not> op_done (ops j) \<and> ve_getVideosOperation env j (ops j) = Inr (ops (Suc j))"
      if "Suc k \<le> j" "j < n" for j
      using Suc.prems(1) [of j] that by simp
    show "op_done (ops n)" by (rule Suc.prems(2))
    show "Suc k \<le> n" using lt by simp
  qed
  moreover have "[k..<n] = k # [Suc k..<n]" using lt by (simp add: upt_conv_Cons)
  ultimately show ?case
    by (subst pollLoop.simps) (simp add: nd st)
qed

text \<open>
  C2. \<open>generateVideoInternal\<close> polls the external job at a fixed interval of 10 seconds.
  Let \<open>ops 0\<close> be the operation that \<open>generateVideos\<close> answers and \<open>ops (j + 1)\<close> the answer
  of the \<open>j\<close>-th poll. If \<open>ops n\<close> is the first operation with \<open>done = true\<close>, the
  function returns (its result is not \<open>None\<close>): the loop has run exactly \<open>n\<close> times, each
  time a timer of 10000 ms followed by one poll, and stops at that response. The video
  URI of that operation is \<open>response.generatedVideos[0].video.uri\<close>. When all four
  levels are present and the URI is a non-empty string, and the download succeeds
  (\<open>fetch\<close> of the URI followed by \<open>&key=\<close> and the API key resolves with \<open>ok\<close>, and the
  blob is read), the result is the object URL of the downloaded blob. When the operation
  contains no download URI, that is the response, the list of generated videos, its
  first element, the video or the URI is missing, or the URI is the empty string, the
  result is the error \<open>Video generation failed or did not return a valid link.\<close>
\<close>

theorem generateVideoInternal_polling:
  assumes "ve_generateVideos env prompt image' = Inr (ops 0)"
    and "\<forall>j<n. \<not> op_done (ops j) \<and> ve_getVideosOperation env j (ops j) = Inr (ops (Suc j))"
    and "op_done (ops n)"
  shows "\<exists>result.
      generateVideoInternal env prompt image'
        = Some (concat (map (\<lambda>j. [Timeout 10000, Poll j]) [0..<n]), result)
    \<and> (\<forall>response g gs v link videoResponse videoBlob.
          op_response (ops n) = Some response
          \<and> r_generatedVideos response = Some (g # gs)
          \<and> gv_video g = Some v \<and> v_uri v = Some link \<and> link \<noteq> []
          \<and> ve_fetch env (link @ lit ''&key='' @ ve_API_KEY env) = Inr videoResponse
          \<and> fr_ok videoResponse \<and> fr_blob videoResponse = Inr videoBlob
          \<longrightarrow> result = Inr (ve_createObjectURL env videoBlob))
    \<and> (op_response (ops n) = None
        \<or> (\<exists>response. op_response (ops n) = Some response
              \<and> (r_generatedVideos response = None \<or> r_generatedVideos response = Some []
                 \<or> (\<exists>g gs. r_generatedVideos response = Some (g # gs)
                       \<and> (gv_video g = None
                          \<or> (\<exists>v. gv_video g = Some v
                                \<and> (v_uri v = None \<or> v_uri v = Some []))))))
        \<longrightarrow> result = Inl (Error (lit ''Video generation failed or did not return a valid link.'')))"
proof -
  have "pollLoop env 0 [] (ops 0) =
      Some ([] @ concat (map (\<lambda>j. [Timeout 10000, Poll j]) [0..<n]), Inr (ops n))"
    by (rule pollLoop_first_done) (use assms in auto)
  then have g: "generateVideoInternal env prompt image' =
      Some (concat (map (\<lambda>j. [Timeout 10000, Poll j]) [0..<n]), download env (ops n))"
    by (simp add: generateVideoInternal_def assms(1))
  have ok: "download env (ops n) = Inr (ve_createObjectURL env videoBlob)"
    if "op_response (ops n) = Some response" "r_generatedVideos response = Some (g # gs)"
      "gv_video g = Some v" "v_uri v = Some link" "link \<noteq> []"
      "ve_fetch env (link @ lit ''&key='' @ ve_API_KEY env) = Inr videoResponse"
      "fr_ok videoResponse" "fr_blob videoResponse = Inr videoBlob"
    for response g gs v link videoResponse videoBlob
    using that by (simp add: download_def downloadLink_def)
  have bad: "download env (ops n) =
      Inl (Error (lit ''Video generation failed or did not return a valid link.''))"
    if "op_response (ops n) = None
        \<or> (\<exists>response. op_response (ops n) = Some response
              \<and> (r_generatedVideos response = None \<or> r_generatedVideos response = Some []
                 \<or> (\<exists>g gs. r_generatedVideos response = Some (g # gs)
                       \<and> (gv_video g = None
                          \<or> (\<exists>v. gv_video g = Some v
                                \<and> (v_uri v = None \<or> v_uri v = Some []))))))"
    using that by (auto simp: download_def downloadLink_def)
  show ?thesis
    apply (rule exI [of _ "download env (ops n)"])
    apply (intro conjI allI impI)
      apply (rule g)
     apply (elim conjE)
     apply (rule ok, assumption+)
    apply (rule bad, assumption)
    done
qed


theorem generateVideoInternal_polling_witness:
  "generateVideoInternal (example_video_env example_finished) (lit ''a cat'') None
     = Some ([Timeout 10000, Poll 0, Timeout 10000, Poll 1], Inr (lit ''blob:1''))
   \<and> generateVideoInternal (example_video_env example_failed) (lit ''a cat'') None
     = Some ([Timeout 10000, Poll 0, Timeout 10000, Poll 1],
             Inl (Error (lit ''Video generation failed or did not return a valid link.'')))
   \<and> generateVideoInternal (example_video_env example_empty_uri) (lit ''a cat'') None
     = Some ([Timeout 10000, Poll 0, Timeout 10000, Poll 1],
             Inl (Error (lit ''Video generation failed or did not return a valid link.'')))"
proof -
  have u: "[0..<2] = [0, 1]" by (simp add: upt_rec)
  have l2: "j < 2 \<longleftrightarrow> j = 0 \<or> j = 1" for j :: nat by auto
  have a: "\<forall>j<2. \<not> op_done (example_ops final j)
      \<and> ve_getVideosOperation (example_video_env final) j (example_ops final j)
          = Inr (example_ops final (Suc j))" for final
    by (auto simp: l2 example_ops_def example_video_env_def example_pending_def)
  have 1: "generateVideoInternal (example_video_env example_finished) (lit ''a cat'') None
     = Some ([Timeout 10000, Poll 0, Timeout 10000, Poll 1], Inr (lit ''blob:1''))"
    using generateVideoInternal_polling [where env = "example_video_env example_finished"
        and prompt = "lit ''a cat''" and image' = None and ops = "example_ops example_finished"
        and n = 2, OF _ a]
    by (simp add: u example_ops_def example_video_env_def example_finished_def)
  have 2: "generateVideoInternal (example_video_env example_failed) (lit ''a cat'') None
     = Some ([Timeout 10000, Poll 0, Timeout 10000, Poll 1],
             Inl (Error (lit ''Video generation failed or did not return a valid link.'')))"
    using generateVideoInternal_polling [where env = "example_video_env example_failed"
        and prompt = "lit ''a cat''" and image' = None and ops = "example_ops example_failed"
        and n = 2, OF _ a]
    by (simp add: u example_ops_def example_video_env_def example_failed_def)
  have 3: "generateVideoInternal (example_video_env example_empty_uri) (lit ''a cat'') None
     = Some ([Timeout 10000, Poll 0, Timeout 10000, Poll 1],
             Inl (Error (lit ''Video generation failed or did not return a valid link.'')))"
    using generateVideoInternal_polling [where env = "example_video_env example_empty_uri"
        and prompt = "lit ''a cat''" and image' = None and ops = "example_ops example_empty_uri"
        and n = 2, OF _ a]
    by (simp add: u example_ops_def example_video_env_def example_empty_uri_def)
  from 1 2 3 show ?thesis by simp
qed

section \<open>Verification: handleSubmit of the video form\<close>

lemma handleSubmit_started:
  assumes p: "vg_prompt st \<noteq> []"
    and g: "vg_mode st = image_to_video \<longrightarrow> vg_imageFile st \<noteq> None"
    and i: "imagePayload env st = Inr payload"
    and h: "addPromptToHistory (se_storageFault env) (lit ''video-prompt-history'')
              (vg_prompt st) (vg_promptHistory st, storage) = (history, storage')"
  shows "handleSubmit env (st, app, storage) =
    (let issued = imageReads st
           @ [VideoRequest (vg_prompt st) payload]
           @ (if vg_audioMood st \<noteq> AM_none
              then [SoundRequest
                      (lit ''A soundtrack for a video with an '' @ [DQUOTE]
                         @ audioMood_label (vg_audioMood st) @ [DQUOTE] @ lit '' mood'')
                      (AudioMood_str (vg_audioMood st))]
              else [])
           @ [AwaitAll];
         st1 = submitStarted st history
     in case generateVideo (se_video env) (vg_prompt st) payload (vg_style st)
             (vg_negativePrompt st) (vg_duration st) (vg_cameraMovement st) (vg_quality st)
             (vg_language st) (vg_framing st) (vg_persona st) (vg_loopVideo st)
             (vg_aspectRatio st) (vg_fps st) (vg_motionIntensity st) (vg_audioMood st) of
          None \<Rightarrow> (issued, None)
        | Some (videoEvents, Inl err) \<Rightarrow>
            (issued @ map VideoProgress videoEvents,
             Some (st1\<lparr>vg_error := Some (errorMessage err), vg_isLoading := False\<rparr>,
                   addToast (se_toast env) (errorMessage err) error app, storage'))
        | Some (videoEvents, Inr videoResult) \<Rightarrow>
            (let audioResult = (if vg_audioMood st \<noteq> AM_none then Some placeholderAudio else None)
             in (issued @ map VideoProgress videoEvents,
                 Some (st1\<lparr>vg_generatedVideo := Some videoResult,
                           vg_generatedAudio := truthy audioResult, vg_isLoading := False\<rparr>,
                       handleSaveToLibrary (se_save env)
                         \<lparr>si_type = VIDEO, si_src = videoResult, si_settings = currentSettings st,
                          si_audioSrc = truthy audioResult, si_variations = None\<rparr> app,
                       storage'))))"
  using p g
  by (simp add: handleSubmit_def Let_def i h Promise_all2_def generateSoundEffect_def
       submitFailed_def split: option.split sum.split prod.split)

lemma no_request_in_progress:
  "filter isVideoRequest (map VideoProgress xs) = []"
  by (induction xs) (simp_all add: isVideoRequest_def)

lemma filter_request_1: "filter isVideoRequest [VideoRequest pr payload] = [VideoRequest pr payload]"
  by (simp add: isVideoRequest_def)

lemma filter_request_2: "filter isVideoRequest [AwaitAll] = []"
  by (simp add: isVideoRequest_def)

lemma filter_request_3: "filter isVideoRequest (imageReads st) = []"
  by (cases "vg_imageFile st") (simp_all add: imageReads_def isVideoRequest_def)

lemma filter_request_4:
  "filter isVideoRequest (if a \<noteq> AM_none then [SoundRequest x y] else []) = []"
  by (simp add: isVideoRequest_def)

lemma request_count:
  "length (filter isVideoRequest
     (imageReads st @ [VideoRequest pr payload]
        @ (if a \<noteq> AM_none then [SoundRequest x y] else [])
        @ [AwaitAll] @ map VideoProgress videoEvents)) = 1"
  by (simp only: One_nat_def filter_append filter_request_1 filter_request_2 filter_request_3
      filter_request_4 no_request_in_progress append_Nil append_Nil2 list.size length_Cons)

lemma no_sound_in_reads: "SoundRequest p m \<notin> set (imageReads st)"
  by (cases "vg_imageFile st") (simp_all add: imageReads_def)

lemma placeholderAudio_ne: "placeholderAudio \<noteq> []"
  by (simp add: placeholderAudio_def lit_Cons)

lemma example_generateVideoInternal:
  assumes "op_done final"
  shows "generateVideoInternal (example_video_env final) p None =
    Some ([Timeout 10000, Poll 0, Timeout 10000, Poll 1], download (example_video_env final) final)"
proof -
  let ?E = "example_video_env final"
  have 3: "pollLoop ?E 2 [Timeout 10000, Poll 0, Timeout 10000, Poll 1] final =
      Some ([Timeout 10000, Poll 0, Timeout 10000, Poll 1], Inr final)"
    by (subst pollLoop.simps) (simp add: assms)
  have 2: "pollLoop ?E 1 [Timeout 10000, Poll 0] example_pending =
      Some ([Timeout 10000, Poll 0, Timeout 10000, Poll 1], Inr final)"
    using 3 by (subst pollLoop.simps)
      (simp add: example_pending_def example_video_env_def numeral_2_eq_2)
  have 1: "pollLoop ?E 0 [] example_pending =
      Some ([Timeout 10000, Poll 0, Timeout 10000, Poll 1], Inr final)"
    using 2 by (subst pollLoop.simps) (simp add: example_pending_def example_video_env_def)
  have "ve_generateVideos ?E p None = Inr example_pending"
    by (simp add: example_video_env_def)
  then show ?thesis
    by (simp add: generateVideoInternal_def 1)
qed

lemma example_done: "op_done example_failed" "op_done example_finished"
  by (simp_all add: example_failed_def example_finished_def)

lemma example_download_failed:
  "download (example_video_env example_failed) example_failed =
     Inl (Error (lit ''Video generation failed or did not return a valid link.''))"
  by (simp add: download_def downloadLink_def example_failed_def)

lemma example_download_finished:
  "download (example_video_env example_finished) example_finished = Inr (lit ''blob:1'')"
  by (simp add: download_def downloadLink_def example_finished_def example_video_env_def
      lit_Cons lit_Nil)



lemma imageReads_eq:
  "imageReads st =
     (if vg_mode st = image_to_video
      then (case vg_imageFile st of None \<Rightarrow> [] | Some file \<Rightarrow> [ReadImage file])
      else [])"
  by (simp add: imageReads_def split: option.split)

lemma example_never_done:
  "pollLoop (example_video_env example_pending) k events example_pending = None"
proof (cases "pollLoop (example_video_env example_pending) k events example_pending")
  case None
  then show ?thesis .
next
  case (Some r)
  have "example_video_env example_pending = example_video_env example_pending
      \<longrightarrow> example_pending = example_pending \<longrightarrow> False"
  proof (rule pollLoop.raw_induct [where P = "\<lambda>env k events operation r.
      env = example_video_env example_pending \<longrightarrow> operation = example_pending \<longrightarrow> False", OF _ Some])
    fix loop env k events operation r
    assume ih: "\<And>env k events operation r. loop env k events operation = Some r \<Longrightarrow>
        env = example_video_env example_pending \<longrightarrow> operation = example_pending \<longrightarrow> False"
      and body: "(if op_done operation then Some (events, Inr operation)
          else case ve_getVideosOperation env k operation of
            Inl e \<Rightarrow> Some (events @ [Timeout 10000, Poll k], Inl e)
          | Inr operation' \<Rightarrow> loop env (Suc k) (events @ [Timeout 10000, Poll k]) operation')
         = Some r"
    show "env = example_video_env example_pending \<longrightarrow> operation = example_pending \<longrightarrow> False"
    proof (intro impI)
      assume e: "env = example_video_env example_pending" and o: "operation = example_pending"
      have "\<not> op_done operation"
        by (simp add: o example_pending_def)
      moreover have "ve_getVideosOperation env k operation = Inr example_pending"
        by (simp add: e example_video_env_def)
      ultimately have "loop env (Suc k) (events @ [Timeout 10000, Poll k]) example_pending = Some r"
        using body by simp
      from ih [OF this] e show False by simp
    qed
  qed
  then show ?thesis by simp
qed

lemma example_generateVideoInternal_pending:
  "generateVideoInternal (example_video_env example_pending) p None = None"
proof -
  have "ve_generateVideos (example_video_env example_pending) p None = Inr example_pending"
    by (simp add: example_video_env_def)
  then show ?thesis
    by (simp add: generateVideoInternal_def example_never_done)
qed

text \<open>
  C3 as stated fails: in image-to-video mode \<open>handleSubmit\<close> reads the selected image
  inside its \<open>try\<close> block, before either request. When that read fails (\<open>onerror\<close> of the
  \<open>FileReader\<close>), control goes to the \<open>catch\<close> block and neither the video request nor
  the soundtrack request is issued, although the submit button was enabled and
  \<open>audioMood\<close> is not \<open>none\<close>: the only event of the submission is the file read.
\<close>

theorem handleSubmit_requests_counterexample:
  "\<not> isSubmitDisabled example_image_form
   \<and> vg_audioMood example_image_form \<noteq> AM_none
   \<and> fst (handleSubmit (example_submit_env example_finished)
            (example_image_form, initialApp, Map.empty))
       = [ReadImage example_image_file]"
  by (simp add: isSubmitDisabled_def example_image_form_def initialVideoGenerator_def
      handleSubmit_def imageReads_def imagePayload_def fileToBase64_def example_submit_env_def
      submitFailed_def Let_def lit_Cons split: prod.split)

text \<open>
  C3, amended. Once \<open>handleSubmit\<close> has passed its validation guards (the prompt is
  non-empty and, in image-to-video mode, an image is selected) and the image, if any,
  has been read: the video request and the soundtrack request are issued one after the
  other, with nothing awaited in between, and are awaited together by the single
  \<open>Promise.all\<close>, after which only the progress of the video job follows (whether or not
  that job ever completes; if it does not, the handler does not return); a soundtrack
  request is among the events iff \<open>audioMood\<close> is not \<open>none\<close>, and otherwise a null result
  is used (no generated audio); the video request is issued exactly once. The
  soundtrack request is a mock that never rejects, so a rejection of the awaited pair
  is the video request's: its message (the fallback text when the rejection is not an
  \<open>Error\<close>) is stored in the error state and shown as an error toast.
\<close>

theorem handleSubmit_requests:
  assumes "vg_prompt st \<noteq> []"
    and "vg_mode st = image_to_video \<longrightarrow> vg_imageFile st \<noteq> None"
    and "imagePayload env st = Inr payload"
  shows "\<exists>events outcome progress.
      handleSubmit env (st, app, storage) = (events, outcome)
    \<and> events =
        (if vg_mode st = image_to_video
         then (case vg_imageFile st of None \<Rightarrow> [] | Some file \<Rightarrow> [ReadImage file])
         else [])
        @ [VideoRequest (vg_prompt st) payload]
        @ (if vg_audioMood st \<noteq> AM_none
           then [SoundRequest
                   (lit ''A soundtrack for a video with an '' @ [DQUOTE]
                      @ audioMood_label (vg_audioMood st) @ [DQUOTE] @ lit '' mood'')
                   (AudioMood_str (vg_audioMood st))]
           else [])
        @ [AwaitAll] @ map VideoProgress progress
    \<and> ((\<exists>p m. SoundRequest p m \<in> set events) \<longleftrightarrow> vg_audioMood st \<noteq> AM_none)
    \<and> length (filter isVideoRequest events) = 1
    \<and> (\<forall>p m. snd (snd (generateSoundEffect p m)) = Inr placeholderAudio)
    \<and> (generateVideo (se_video env) (vg_prompt st) payload (vg_style st)
             (vg_negativePrompt st) (vg_duration st) (vg_cameraMovement st) (vg_quality st)
             (vg_language st) (vg_framing st) (vg_persona st) (vg_loopVideo st)
             (vg_aspectRatio st) (vg_fps st) (vg_motionIntensity st) (vg_audioMood st)
           = None \<longrightarrow>
          progress = [] \<and> outcome = None)
    \<and> (\<forall>videoEvents videoResult.
          generateVideo (se_video env) (vg_prompt st) payload (vg_style st)
             (vg_negativePrompt st) (vg_duration st) (vg_cameraMovement st) (vg_quality st)
             (vg_language st) (vg_framing st) (vg_persona st) (vg_loopVideo st)
             (vg_aspectRatio st) (vg_fps st) (vg_motionIntensity st) (vg_audioMood st)
           = Some (videoEvents, Inr videoResult) \<longrightarrow>
          progress = videoEvents
          \<and> (\<exists>st' app' storage'. outcome = Some (st', app', storage')
                \<and> vg_generatedVideo st' = Some videoResult
                \<and> vg_generatedAudio st'
                    = (if vg_audioMood st \<noteq> AM_none then Some placeholderAudio else None)
                \<and> vg_error st' = None))
    \<and> (\<forall>videoEvents err.
          generateVideo (se_video env) (vg_prompt st) payload (vg_style st)
             (vg_negativePrompt st) (vg_duration st) (vg_cameraMovement st) (vg_quality st)
             (vg_language st) (vg_framing st) (vg_persona st) (vg_loopVideo st)
             (vg_aspectRatio st) (vg_fps st) (vg_motionIntensity st) (vg_audioMood st)
           = Some (videoEvents, Inl err) \<longrightarrow>
          progress = videoEvents
          \<and> (\<exists>st' app' storage'. outcome = Some (st', app', storage')
                \<and> vg_error st' = Some (case err of Error m \<Rightarrow> m
                                    | NonError \<Rightarrow> lit ''An unknown error occurred.'')
                \<and> app_toasts app' = app_toasts app
                    @ [\<lparr>t_id = decimal (te_now (se_toast env)) @ te_random (se_toast env),
                        t_message = (case err of Error m \<Rightarrow> m
                                    | NonError \<Rightarrow> lit ''An unknown error occurred.''),
                        t_type = error\<rparr>]))"
proof -
  obtain history storage' where h:
    "addPromptToHistory (se_storageFault env) (lit ''video-prompt-history'')
       (vg_prompt st) (vg_promptHistory st, storage) = (history, storage')"
    by (cases "addPromptToHistory (se_storageFault env) (lit ''video-prompt-history'')
       (vg_prompt st) (vg_promptHistory st, storage)") auto
  let ?gv = "generateVideo (se_video env) (vg_prompt st) payload (vg_style st)
             (vg_negativePrompt st) (vg_duration st) (vg_cameraMovement st) (vg_quality st)
             (vg_language st) (vg_framing st) (vg_persona st) (vg_loopVideo st)
             (vg_aspectRatio st) (vg_fps st) (vg_motionIntensity st) (vg_audioMood st)"
  let ?issued = "imageReads st
        @ [VideoRequest (vg_prompt st) payload]
        @ (if vg_audioMood st \<noteq> AM_none
           then [SoundRequest
                   (lit ''A soundtrack for a video with an '' @ [DQUOTE]
                      @ audioMood_label (vg_audioMood st) @ [DQUOTE] @ lit '' mood'')
                   (AudioMood_str (vg_audioMood st))]
           else [])
        @ [AwaitAll]"
  let ?st1 = "submitStarted st history"
  have cnt: "length (filter isVideoRequest (?issued @ map VideoProgress progress)) = 1"
    for progress
    using request_count [of st "vg_prompt st" payload "vg_audioMood st" _ _ progress]
    by (simp only: append_assoc)
  have snd: "(\<exists>p m. SoundRequest p m \<in> set (?issued @ map VideoProgress progress))
      \<longleftrightarrow> vg_audioMood st \<noteq> AM_none" for progress
    using no_sound_in_reads [of _ _ st] by auto
  have mock: "\<forall>p m. snd (snd (generateSoundEffect p m)) = Inr placeholderAudio"
    by (simp add: generateSoundEffect_def)
  have shape: "?issued @ map VideoProgress progress =
        (if vg_mode st = image_to_video
         then (case vg_imageFile st of None \<Rightarrow> [] | Some file \<Rightarrow> [ReadImage file])
         else [])
        @ [VideoRequest (vg_prompt st) payload]
        @ (if vg_audioMood st \<noteq> AM_none
           then [SoundRequest
                   (lit ''A soundtrack for a video with an '' @ [DQUOTE]
                      @ audioMood_label (vg_audioMood st) @ [DQUOTE] @ lit '' mood'')
                   (AudioMood_str (vg_audioMood st))]
           else [])
        @ [AwaitAll] @ map VideoProgress progress" for progress
    by (simp only: imageReads_eq append_assoc)
  note s = handleSubmit_started [OF assms h, of app]
  show ?thesis
  proof (cases ?gv)
    case None
    have hs: "handleSubmit env (st, app, storage) = (?issued @ map VideoProgress [], None)"
      unfolding s Let_def None by simp
    show ?thesis
      apply (rule exI [of _ "?issued @ map VideoProgress []"], rule exI [of _ None],
          rule exI [of _ "[]"])
      apply (intro conjI)
             apply (rule hs)
            apply (rule shape)
           apply (rule snd)
          apply (rule cnt)
         apply (rule mock)
        apply simp
       apply (simp add: None)
      apply (simp add: None)
      done
  next
    case (Some res)
    obtain videoEvents videoOutcome where res: "res = (videoEvents, videoOutcome)"
      by (cases res) auto
    show ?thesis
    proof (cases videoOutcome)
      case (Inl err)
      let ?st' = "?st1\<lparr>vg_error := Some (errorMessage err), vg_isLoading := False\<rparr>"
      let ?app' = "addToast (se_toast env) (errorMessage err) error app"
      have hs: "handleSubmit env (st, app, storage) =
          (?issued @ map VideoProgress videoEvents, Some (?st', ?app', storage'))"
        unfolding s Let_def Some res Inl by simp
      show ?thesis
        apply (rule exI [of _ "?issued @ map VideoProgress videoEvents"],
            rule exI [of _ "Some (?st', ?app', storage')"], rule exI [of _ videoEvents])
        apply (intro conjI)
               apply (rule hs)
              apply (rule shape)
             apply (rule snd)
            apply (rule cnt)
           apply (rule mock)
          apply (simp add: Some)
         apply (simp add: Some res Inl)
        apply (simp add: Some res Inl addToast_def errorMessage_def)
        done
    next
      case (Inr videoResult)
      let ?audio = "if vg_audioMood st \<noteq> AM_none then Some placeholderAudio else None"
      let ?st' = "?st1\<lparr>vg_generatedVideo := Some videoResult,
                        vg_generatedAudio := truthy ?audio, vg_isLoading := False\<rparr>"
      let ?app' = "handleSaveToLibrary (se_save env)
                      \<lparr>si_type = VIDEO, si_src = videoResult, si_settings = currentSettings st,
                       si_audioSrc = truthy ?audio, si_variations = None\<rparr> app"
      have hs: "handleSubmit env (st, app, storage) =
          (?issued @ map VideoProgress videoEvents, Some (?st', ?app', storage'))"
        unfolding s Let_def Some res Inr by simp
      show ?thesis
        apply (rule exI [of _ "?issued @ map VideoProgress videoEvents"],
            rule exI [of _ "Some (?st', ?app', storage')"], rule exI [of _ videoEvents])
        apply (intro conjI)
               apply (rule hs)
              apply (rule shape)
             apply (rule snd)
            apply (rule cnt)
           apply (rule mock)
          apply (simp add: Some)
         apply (simp add: Some res Inr truthy_def placeholderAudio_ne submitStarted_def)
        apply (simp add: Some res Inr)
        done
    qed
  qed
qed


theorem handleSubmit_requests_witness:
  "(case handleSubmit (example_submit_env example_finished)
           (initialVideoGenerator\<lparr>vg_prompt := lit ''a cat'', vg_audioMood := epic\<rparr>,
            initialApp, Map.empty) of
      (events, None) \<Rightarrow> False
    | (events, Some (st', app', storage')) \<Rightarrow>
        events = [VideoRequest (lit ''a cat'') None,
                  SoundRequest (lit ''A soundtrack for a video with an \"Epic Orchestral\" mood'')
                    (lit ''epic''),
                  AwaitAll, VideoProgress (Timeout 10000), VideoProgress (Poll 0),
                  VideoProgress (Timeout 10000), VideoProgress (Poll 1)]
        \<and> vg_generatedVideo st' = Some (lit ''blob:1'')
        \<and> vg_generatedAudio st' = Some placeholderAudio)
   \<and> handleSubmit (example_submit_env example_pending)
        (initialVideoGenerator\<lparr>vg_prompt := lit ''a cat''\<rparr>, initialApp, Map.empty)
      = ([VideoRequest (lit ''a cat'') None, AwaitAll], None)
   \<and> (case handleSubmit (example_submit_env example_failed)
             (initialVideoGenerator\<lparr>vg_prompt := lit ''a cat''\<rparr>, initialApp, Map.empty) of
        (events, None) \<Rightarrow> False
      | (events, Some (st', app', storage')) \<Rightarrow>
          events = [VideoRequest (lit ''a cat'') None, AwaitAll,
                    VideoProgress (Timeout 10000), VideoProgress (Poll 0),
                    VideoProgress (Timeout 10000), VideoProgress (Poll 1)]
          \<and> vg_error st'
              = Some (lit ''Video generation failed or did not return a valid link.'')
          \<and> map t_message (app_toasts app')
              = [lit ''Video generation failed or did not return a valid link.''])"
proof -
  let ?st = "initialVideoGenerator\<lparr>vg_prompt := lit ''a cat'', vg_audioMood := epic\<rparr>"
  let ?env = "example_submit_env example_finished"
  have h1: "vg_prompt ?st \<noteq> []" by (simp add: lit_Cons)
  have h2: "vg_mode ?st = image_to_video \<longrightarrow> vg_imageFile ?st \<noteq> None"
    by (simp add: initialVideoGenerator_def)
  have h3: "imagePayload ?env ?st = Inr None"
    by (simp add: imagePayload_def initialVideoGenerator_def)
  have h4: "generateVideo (se_video ?env) (vg_prompt ?st) None (vg_style ?st)
             (vg_negativePrompt ?st) (vg_duration ?st) (vg_cameraMovement ?st) (vg_quality ?st)
             (vg_language ?st) (vg_framing ?st) (vg_persona ?st) (vg_loopVideo ?st)
             (vg_aspectRatio ?st) (vg_fps ?st) (vg_motionIntensity ?st) (vg_audioMood ?st)
           = Some ([Timeout 10000, Poll 0, Timeout 10000, Poll 1], Inr (lit ''blob:1''))"
    unfolding generateVideo_def
    using example_generateVideoInternal [of example_finished]
    by (simp add: example_submit_env_def example_download_finished example_done)
  have 1: "(case handleSubmit ?env (?st, initialApp, Map.empty) of
      (events, None) \<Rightarrow> False
    | (events, Some (st', app', storage')) \<Rightarrow>
        events = [VideoRequest (lit ''a cat'') None,
                  SoundRequest (lit ''A soundtrack for a video with an \"Epic Orchestral\" mood'')
                    (lit ''epic''),
                  AwaitAll, VideoProgress (Timeout 10000), VideoProgress (Poll 0),
                  VideoProgress (Timeout 10000), VideoProgress (Poll 1)]
        \<and> vg_generatedVideo st' = Some (lit ''blob:1'')
        \<and> vg_generatedAudio st' = Some placeholderAudio)"
    using handleSubmit_requests [OF h1 h2 h3, of initialApp Map.empty]
    by (simp only: h4) (auto simp: initialVideoGenerator_def lit_Cons lit_Nil DQUOTE_def)
  let ?st2 = "initialVideoGenerator\<lparr>vg_prompt := lit ''a cat''\<rparr>"
  let ?env2 = "example_submit_env example_pending"
  have k1: "vg_prompt ?st2 \<noteq> []" by (simp add: lit_Cons)
  have k2: "vg_mode ?st2 = image_to_video \<longrightarrow> vg_imageFile ?st2 \<noteq> None"
    by (simp add: initialVideoGenerator_def)
  have k3: "imagePayload ?env2 ?st2 = Inr None"
    by (simp add: imagePayload_def initialVideoGenerator_def)
  have k4: "generateVideo (se_video ?env2) (vg_prompt ?st2) None (vg_style ?st2)
             (vg_negativePrompt ?st2) (vg_duration ?st2) (vg_cameraMovement ?st2) (vg_quality ?st2)
             (vg_language ?st2) (vg_framing ?st2) (vg_persona ?st2) (vg_loopVideo ?st2)
             (vg_aspectRatio ?st2) (vg_fps ?st2) (vg_motionIntensity ?st2) (vg_audioMood ?st2)
           = None"
    unfolding generateVideo_def
    by (simp add: example_submit_env_def example_generateVideoInternal_pending)
  have 2: "handleSubmit ?env2 (?st2, initialApp, Map.empty)
      = ([VideoRequest (lit ''a cat'') None, AwaitAll], None)"
    using handleSubmit_requests [OF k1 k2 k3, of initialApp Map.empty]
    by (simp only: k4) (auto simp: initialVideoGenerator_def)
  let ?env3 = "example_submit_env example_failed"
  have f3: "imagePayload ?env3 ?st2 = Inr None"
    by (simp add: imagePayload_def initialVideoGenerator_def)
  have f4: "generateVideo (se_video ?env3) (vg_prompt ?st2) None (vg_style ?st2)
             (vg_negativePrompt ?st2) (vg_duration ?st2) (vg_cameraMovement ?st2) (vg_quality ?st2)
             (vg_language ?st2) (vg_framing ?st2) (vg_persona ?st2) (vg_loopVideo ?st2)
             (vg_aspectRatio ?st2) (vg_fps ?st2) (vg_motionIntensity ?st2) (vg_audioMood ?st2)
           = Some ([Timeout 10000, Poll 0, Timeout 10000, Poll 1],
                   Inl (Error (lit ''Video generation failed or did not return a valid link.'')))"
    unfolding generateVideo_def
    using example_generateVideoInternal [of example_failed]
    by (simp add: example_submit_env_def example_download_failed example_done)
  have 3: "(case handleSubmit ?env3 (?st2, initialApp, Map.empty) of
        (events, None) \<Rightarrow> False
      | (events, Some (st', app', storage')) \<Rightarrow>
          events = [VideoRequest (lit ''a cat'') None, AwaitAll,
                    VideoProgress (Timeout 10000), VideoProgress (Poll 0),
                    VideoProgress (Timeout 10000), VideoProgress (Poll 1)]
          \<and> vg_error st'
              = Some (lit ''Video generation failed or did not return a valid link.'')
          \<and> map t_message (app_toasts app')
              = [lit ''Video generation failed or did not return a valid link.''])"
    using handleSubmit_requests [OF k1 k2 f3, of initialApp Map.empty]
    by (simp only: f4) (auto simp: initialVideoGenerator_def initialApp_def)
  from 1 2 3 show ?thesis by (intro conjI)
qed

text \<open>
  C4. When video generation fails in \<open>handleSubmit\<close>, that is, the guards have passed,
  the image, if any, has been read and the awaited video promise rejects with \<open>err\<close>,
  the error is caught: one error toast is added that carries the error's message (the
  fixed text \<open>An unknown error occurred.\<close> when \<open>err\<close> is not an \<open>Error\<close>), the same
  message is stored in the error state, the video request has been issued exactly once
  (no retry), the library list is exactly what it was (\<open>onSaveToLibrary\<close> is not called),
  no video is shown, and the loading flag is reset to false.
\<close>

theorem handleSubmit_video_failure:
  assumes "vg_prompt st \<noteq> []"
    and "vg_mode st = image_to_video \<longrightarrow> vg_imageFile st \<noteq> None"
    and "imagePayload env st = Inr payload"
    and "generateVideo (se_video env) (vg_prompt st) payload (vg_style st)
             (vg_negativePrompt st) (vg_duration st) (vg_cameraMovement st) (vg_quality st)
             (vg_language st) (vg_framing st) (vg_persona st) (vg_loopVideo st)
             (vg_aspectRatio st) (vg_fps st) (vg_motionIntensity st) (vg_audioMood st)
           = Some (videoEvents, Inl err)"
  shows "\<exists>events st' app' storage'.
      handleSubmit env (st, app, storage) = (events, Some (st', app', storage'))
    \<and> app_toasts app' = app_toasts app
        @ [\<lparr>t_id = decimal (te_now (se_toast env)) @ te_random (se_toast env),
            t_message = (case err of Error m \<Rightarrow> m
                         | NonError \<Rightarrow> lit ''An unknown error occurred.''),
            t_type = error\<rparr>]
    \<and> vg_error st' = Some (case err of Error m \<Rightarrow> m
                            | NonError \<Rightarrow> lit ''An unknown error occurred.'')
    \<and> length (filter isVideoRequest events) = 1
    \<and> app_libraryItems app' = app_libraryItems app
    \<and> vg_generatedVideo st' = None
    \<and> vg_isLoading st' = False"
proof -
  obtain history storage' where h:
    "addPromptToHistory (se_storageFault env) (lit ''video-prompt-history'')
       (vg_prompt st) (vg_promptHistory st, storage) = (history, storage')"
    by (cases "addPromptToHistory (se_storageFault env) (lit ''video-prompt-history'')
       (vg_prompt st) (vg_promptHistory st, storage)") auto
  let ?events = "imageReads st
        @ [VideoRequest (vg_prompt st) payload]
        @ (if vg_audioMood st \<noteq> AM_none
           then [SoundRequest
                   (lit ''A soundtrack for a video with an '' @ [DQUOTE]
                      @ audioMood_label (vg_audioMood st) @ [DQUOTE] @ lit '' mood'')
                   (AudioMood_str (vg_audioMood st))]
           else [])
        @ [AwaitAll] @ map VideoProgress videoEvents"
  let ?st' = "(submitStarted st history)\<lparr>vg_error := Some (errorMessage err), vg_isLoading := False\<rparr>"
  let ?app' = "addToast (se_toast env) (errorMessage err) error app"
  have cnt: "length (filter isVideoRequest ?events) = 1"
    by (rule request_count)
  have hs: "handleSubmit env (st, app, storage) = (?events, Some (?st', ?app', storage'))"
    using handleSubmit_started [OF assms(1-3) h, of app] by (simp add: Let_def assms(4))
  show ?thesis
    apply (rule exI [of _ ?events], rule exI [of _ ?st'], rule exI [of _ ?app'],
        rule exI [of _ storage'])
    apply (intro conjI)
          apply (rule hs)
         apply (simp add: addToast_def errorMessage_def)
        apply (simp add: errorMessage_def)
       apply (rule cnt)
      apply (simp add: addToast_def)
     apply (simp add: submitStarted_def)
    apply simp
    done
qed

theorem handleSubmit_video_failure_witness:
  "(case handleSubmit (example_submit_env example_failed)
           (initialVideoGenerator\<lparr>vg_prompt := lit ''a cat''\<rparr>, initialApp, Map.empty) of
      (events, None) \<Rightarrow> False
    | (events, Some (st', app', storage')) \<Rightarrow>
        map t_message (app_toasts app')
          = [lit ''Video generation failed or did not return a valid link.'']
        \<and> map t_type (app_toasts app') = [error]
        \<and> vg_error st' = Some (lit ''Video generation failed or did not return a valid link.'')
        \<and> length (filter isVideoRequest events) = 1
        \<and> app_libraryItems app' = []
        \<and> vg_isLoading st' = False)"
proof -
  let ?st = "initialVideoGenerator\<lparr>vg_prompt := lit ''a cat''\<rparr>"
  let ?env = "example_submit_env example_failed"
  have h1: "vg_prompt ?st \<noteq> []" by (simp add: lit_Cons)
  have h2: "vg_mode ?st = image_to_video \<longrightarrow> vg_imageFile ?st \<noteq> None"
    by (simp add: initialVideoGenerator_def)
  have h3: "imagePayload ?env ?st = Inr None"
    by (simp add: imagePayload_def initialVideoGenerator_def)
  have h4: "generateVideo (se_video ?env) (vg_prompt ?st) None (vg_style ?st)
             (vg_negativePrompt ?st) (vg_duration ?st) (vg_cameraMovement ?st) (vg_quality ?st)
             (vg_language ?st) (vg_framing ?st) (vg_persona ?st) (vg_loopVideo ?st)
             (vg_aspectRatio ?st) (vg_fps ?st) (vg_motionIntensity ?st) (vg_audioMood ?st)
           = Some ([Timeout 10000, Poll 0, Timeout 10000, Poll 1],
                   Inl (Error (lit ''Video generation failed or did not return a valid link.'')))"
    unfolding generateVideo_def
    using example_generateVideoInternal [of example_failed]
    by (simp add: example_submit_env_def example_download_failed example_done)
  from handleSubmit_video_failure [OF h1 h2 h3 h4, of initialApp Map.empty]
  show ?thesis by (auto simp: initialApp_def)
qed

end
